theory Spec2Isabelle
  imports Main "HOL-Library.Sublist"
begin

section \<open>Constants of the notebook\<close>

text \<open>
  The notebook keeps two dictionaries of identifiers, \<^verbatim>\<open>PROPS\<close> and \<^verbatim>\<open>ITEMS\<close>.
  They are association lists here; a subscript with a literal key is a lookup.
\<close>

definition PROPS :: "(string \<times> string) list" where
  "PROPS = [(''NCBI Taxonomy ID'', ''P685''),
            (''GenBank Assembly accession'', ''P4333''),
            (''stated in'', ''P248''),
            (''retrieved'', ''P813''),
            (''reference URL'', ''P854'')]"

definition ITEMS :: "(string \<times> string) list" where
  "ITEMS = [(''GenBank'', ''Q901755'')]"

definition subscript :: "(string \<times> string) list \<Rightarrow> string \<Rightarrow> string" where
  "subscript d k = the (map_of d k)"

section \<open>Loading and pre-processing (cell 8)\<close>

text \<open>
  A row of \<^verbatim>\<open>prokaryotes.txt\<close> with the three columns the notebook reads.
\<close>

record row =
  Status :: string
  TaxID :: int
  Assembly_Accession :: string

text \<open>\<^verbatim>\<open>df.query("Status == 'Complete Genome'")\<close>\<close>

definition query_status :: "row list \<Rightarrow> row list" where
  "query_status df = filter (\<lambda>r. Status r = ''Complete Genome'') df"

text \<open>
  \<^verbatim>\<open>df.groupby("TaxID").agg({'Assembly Accession': lambda x: list(x)})\<close>:
  one group per key, keys in ascending order, each group the list of the accessions
  of its rows in row order (a list: equal accessions are kept as often as they occur).
\<close>

definition groupby_agg :: "row list \<Rightarrow> (int \<times> string list) list" where
  "groupby_agg df =
     map (\<lambda>k. (k, map Assembly_Accession (filter (\<lambda>r. TaxID r = k) df)))
         (sort (remdups (map TaxID df)))"

text \<open>\<^verbatim>\<open>{k: v[0] for k, v in d.items() if len(v) == 1}\<close>, as the list of its items.\<close>

definition single_accession :: "(int \<times> string list) list \<Rightarrow> (int \<times> string) list" where
  "single_accession d =
     map (\<lambda>(k, v). (k, v ! 0)) (filter (\<lambda>(k, v). length v = 1) d)"

definition load_d :: "row list \<Rightarrow> (int \<times> string) list" where
  "load_d df = single_accession (groupby_agg (query_status df))"

text \<open>
  The wording of the specification, for comparison with the code: the set of distinct
  values observed for a key among the admitted rows.
\<close>

definition spec_distinct_values :: "row list \<Rightarrow> int \<Rightarrow> string set" where
  "spec_distinct_values df k =
     set (map Assembly_Accession
            (filter (\<lambda>r. Status r = ''Complete Genome'' \<and> TaxID r = k) df))"

text \<open>The accessions of the admitted rows of one key, with repetition.\<close>

definition admitted_accessions :: "row list \<Rightarrow> int \<Rightarrow> string list" where
  "admitted_accessions df k =
     map Assembly_Accession
       (filter (\<lambda>r. Status r = ''Complete Genome'' \<and> TaxID r = k) df)"

definition duplicate_rows :: "row list" where
  "duplicate_rows =
     [\<lparr>Status = ''Complete Genome'', TaxID = 9, Assembly_Accession = ''GCA_900128725.1''\<rparr>,
      \<lparr>Status = ''Complete Genome'', TaxID = 9, Assembly_Accession = ''GCA_900128725.1''\<rparr>]"

definition two_rows :: "row list" where
  "two_rows =
     [\<lparr>Status = ''Complete Genome'', TaxID = 9, Assembly_Accession = ''GCA_900128725.1''\<rparr>,
      \<lparr>Status = ''Contig'', TaxID = 9, Assembly_Accession = ''GCA_000000000.1''\<rparr>,
      \<lparr>Status = ''Complete Genome'', TaxID = 1366, Assembly_Accession = ''GCA_002310475.1''\<rparr>,
      \<lparr>Status = ''Complete Genome'', TaxID = 1366, Assembly_Accession = ''GCA_000000001.1''\<rparr>]"

section \<open>Decimal strings and the clock\<close>

text \<open>
  \<^verbatim>\<open>str(taxid)\<close> of an integer: its decimal digits, with a minus sign when negative.
\<close>

definition digit :: "nat \<Rightarrow> char" where
  "digit n = ''0123456789'' ! n"

fun str_nat :: "nat \<Rightarrow> string" where
  "str_nat n = (if n < 10 then [digit n] else str_nat (n div 10) @ [digit (n mod 10)])"

declare str_nat.simps [simp del]

definition str :: "int \<Rightarrow> string" where
  "str i = (if i < 0 then CHR ''-'' # str_nat (nat (- i)) else str_nat (nat i))"

text \<open>
  The value of \<^verbatim>\<open>gmtime()\<close>: the broken-down UTC time. The clock is outside the
  program, so every function that reads it takes the reading as an argument.
\<close>

record struct_time =
  tm_year :: nat
  tm_mon :: nat
  tm_mday :: nat
  tm_hour :: nat
  tm_min :: nat
  tm_sec :: nat

text \<open>\<^verbatim>\<open>%m\<close> and \<^verbatim>\<open>%d\<close>: two digits, zero-padded.\<close>

definition zero_pad2 :: "nat \<Rightarrow> string" where
  "zero_pad2 n = (if n < 10 then CHR ''0'' # str_nat n else str_nat n)"

text \<open>
  \<^verbatim>\<open>strftime("+%Y-%m-%dT00:00:00Z", t)\<close>. The time of day is literal text of the
  format; only the date directives read \<open>t\<close>.
\<close>

definition strftime_retrieved :: "struct_time \<Rightarrow> string" where
  "strftime_retrieved t =
     ''+'' @ str_nat (tm_year t) @ ''-'' @ zero_pad2 (tm_mon t) @ ''-'' @ zero_pad2 (tm_mday t)
       @ ''T00:00:00Z''"

section \<open>Statements and references (cell 18)\<close>

text \<open>
  The statement classes of the client library, as the notebook builds them: value,
  property number, and for a reference statement the flag \<^verbatim>\<open>is_reference\<close>; an
  external-id statement carries its reference groups.
\<close>

datatype ref_statement =
    WDItemID string string bool
  | WDTime string string bool
  | WDUrl string string bool

datatype statement = WDExternalID string string "ref_statement list list"

definition create_reference :: "struct_time \<Rightarrow> string \<Rightarrow> ref_statement list" where
  "create_reference now genbank_id =
     (let stated_in = WDItemID (subscript ITEMS ''GenBank'') (subscript PROPS ''stated in'') True;
          retrieved = WDTime (strftime_retrieved now) (subscript PROPS ''retrieved'') True;
          url = ''https://www.ncbi.nlm.nih.gov/genome/?term='' @ genbank_id;
          ref_url = WDUrl url (subscript PROPS ''reference URL'') True
      in [stated_in, retrieved, ref_url])"

section \<open>The audit log\<close>

text \<open>
  \<^verbatim>\<open>wdi_helpers.format_msg(record id, property, entity, message, type)\<close> builds one
  log message from its five fields (the last is \<^verbatim>\<open>None\<close> when not passed), and
  \<^verbatim>\<open>WDItemEngine.log(level, msg)\<close> appends it to the log under a severity. The log
  of cell 27 shows the fields in this order, after the severity and a time stamp, which
  is left out here.
\<close>

record log_message =
  external_id :: string
  external_id_prop :: string
  wdid :: string
  msg_text :: string
  msg_type :: "string option"

definition format_msg :: "string \<Rightarrow> string \<Rightarrow> string \<Rightarrow> string \<Rightarrow> string option \<Rightarrow> log_message" where
  "format_msg i p q m t =
     \<lparr>external_id = i, external_id_prop = p, wdid = q, msg_text = m, msg_type = t\<rparr>"

record log_line =
  level :: string
  body :: log_message

text \<open>
  The dictionary that cell 16 serialises and passes to \<^verbatim>\<open>setup_logging\<close> as the
  header of the log; the two arguments are the two readings of
  \<^verbatim>\<open>str(datetime.now())\<close>.
\<close>

definition logging_header :: "string \<Rightarrow> string \<Rightarrow> (string \<times> string) list" where
  "logging_header now1 now2 =
     [(''name'', ''genbank assembly''), (''timestamp'', now1), (''run_id'', now2)]"

section \<open>The client library as a parameter\<close>

text \<open>
  What a call of the library may raise. The notebook names one class,
  \<^verbatim>\<open>ManualInterventionReqException\<close>; every other class is \<open>OtherException\<close> with
  its class name. Both carry the text of \<^verbatim>\<open>str(e)\<close>.
\<close>

datatype exn = ManualInterventionReqException string | OtherException string string

fun str_exn :: "exn \<Rightarrow> string" where
  "str_exn (ManualInterventionReqException m) = m"
| "str_exn (OtherException c m) = m"

fun type_exn :: "exn \<Rightarrow> string" where
  "type_exn (ManualInterventionReqException m) = ''ManualInterventionReqException''"
| "type_exn (OtherException c m) = c"

text \<open>
  The keyword arguments that the notebook passes to the constructor
  \<^verbatim>\<open>WDItemEngine\<close>; \<open>None\<close>, \<open>False\<close> and the empty string stand for an
  argument that is not passed. \<open>ref_handler\<close> holds the \<^verbatim>\<open>days\<close> of the handler
  \<^verbatim>\<open>update_retrieved_if_new\<close>.
\<close>

record engine_args =
  data :: "statement list"
  wd_item_id :: string
  domain :: "string option"
  search_only :: bool
  item_name :: "string option"
  fast_run :: bool
  fast_run_base_filter :: "(string \<times> string) list"
  global_ref_mode :: "string option"
  fast_run_use_refs :: bool
  ref_handler :: "nat option"

text \<open>The keyword arguments of \<^verbatim>\<open>try_write\<close> (the login session is left out).\<close>

record write_args =
  record_id :: string
  record_prop :: string
  edit_summary :: string

text \<open>
  The library is not part of the notebook, so it is a parameter: a world \<open>'w\<close> (the
  remote store, the caches of the library, the clock) and item objects \<open>'i\<close>.
  \<^item> The constructor returns an item or raises, and may change the world; it writes
    nothing to the log.
  \<^item> \<^verbatim>\<open>try_write\<close> performs the write; by the notebook's comment it "automatically
    writes to a log file and captures errors", so it returns normally, with the line it
    logs (the log of cell 27 has one line for each record handed to it). Its return
    value is not used by the notebook.
  \<^item> \<^verbatim>\<open>gmtime\<close> reads the clock of the world.
\<close>

record ('w, 'i) wdi =
  WDItemEngine :: "engine_args \<Rightarrow> 'w \<Rightarrow> (exn + 'i) \<times> 'w"
  item_wd_item_id :: "'i \<Rightarrow> string"
  try_write :: "'i \<Rightarrow> write_args \<Rightarrow> 'w \<Rightarrow> log_line \<times> 'w"
  gmtime :: "'w \<Rightarrow> struct_time"

text \<open>
  The state that a run changes: the log, the world, and a trace of the calls that can
  reach the remote store (kept only to state which calls were made).
\<close>

datatype call = EngineCall engine_args | TryWriteCall engine_args write_args


fun is_write :: "call \<Rightarrow> bool" where
  "is_write (EngineCall a) = False"
| "is_write (TryWriteCall a w) = True"

record 'w state =
  log :: "log_line list"
  calls :: "call list"
  world :: 'w

text \<open>A call of \<^verbatim>\<open>run_one\<close> returns, or an exception leaves it.\<close>

datatype 'w result = Returned "'w state" | Raised exn "'w state"

fun final_state :: "'w result \<Rightarrow> 'w state" where
  "final_state (Returned st) = st"
| "final_state (Raised e st) = st"

fun has_returned :: "'w result \<Rightarrow> bool" where
  "has_returned (Returned st) = True"
| "has_returned (Raised e st) = False"

definition log_append :: "string \<Rightarrow> log_message \<Rightarrow> 'w state \<Rightarrow> 'w state" where
  "log_append lv m st = st\<lparr>log := log st @ [\<lparr>level = lv, body = m\<rparr>]\<rparr>"

definition new_lines :: "'w state \<Rightarrow> 'w result \<Rightarrow> log_line list" where
  "new_lines st r = drop (length (log st)) (log (final_state r))"

definition new_calls :: "'w state \<Rightarrow> 'w result \<Rightarrow> call list" where
  "new_calls st r = drop (length (calls st)) (calls (final_state r))"

section \<open>The bot, version 1: one lookup per record (cell 20)\<close>

definition no_args :: "engine_args" where
  "no_args = \<lparr>data = [], wd_item_id = '''', domain = None, search_only = False,
     item_name = None, fast_run = False, fast_run_base_filter = [], global_ref_mode = None,
     fast_run_use_refs = False, ref_handler = None\<rparr>"

definition search_args :: "int \<Rightarrow> engine_args" where
  "search_args taxid =
     no_args\<lparr>data := [WDExternalID (str taxid) (subscript PROPS ''NCBI Taxonomy ID'') []],
             domain := Some ''organism'', search_only := True,
             item_name := Some ''organism''\<rparr>"

definition genbank_statement :: "struct_time \<Rightarrow> string \<Rightarrow> statement" where
  "genbank_statement now genbank_id =
     (let reference = create_reference now genbank_id
      in WDExternalID genbank_id (subscript PROPS ''GenBank Assembly accession'') [reference])"

definition write_args_of :: "string \<Rightarrow> write_args" where
  "write_args_of genbank_id =
     \<lparr>record_id = genbank_id, record_prop = subscript PROPS ''GenBank Assembly accession'',
      edit_summary = ''update GenBank Assembly accession''\<rparr>"

text \<open>
  The tail shared by the three versions: construct the item for the entity and hand it
  to \<^verbatim>\<open>try_write\<close>. Neither call stands inside a \<^verbatim>\<open>try\<close>: an exception of the
  constructor leaves \<^verbatim>\<open>run_one\<close>.
\<close>

definition construct_and_write ::
  "('w, 'i) wdi \<Rightarrow> engine_args \<Rightarrow> string \<Rightarrow> 'w state \<Rightarrow> 'w result" where
  "construct_and_write lib args genbank_id st =
     (let st1 = st\<lparr>calls := calls st @ [EngineCall args]\<rparr>
      in case WDItemEngine lib args (world st1) of
           (Inl e, w) \<Rightarrow> Raised e (st1\<lparr>world := w\<rparr>)
         | (Inr item, w) \<Rightarrow>
             (let wa = write_args_of genbank_id;
                  (line, w') = try_write lib item wa w
              in Returned (st1\<lparr>calls := calls st1 @ [TryWriteCall args wa],
                               log := log st1 @ [line], world := w'\<rparr>)))"

definition run_one_v1 :: "('w, 'i) wdi \<Rightarrow> int \<Rightarrow> string \<Rightarrow> 'w state \<Rightarrow> 'w result" where
  "run_one_v1 lib taxid genbank_id st =
     (let st1 = st\<lparr>calls := calls st @ [EngineCall (search_args taxid)]\<rparr>
      in case WDItemEngine lib (search_args taxid) (world st1) of
           (Inl (ManualInterventionReqException m), w) \<Rightarrow>
             (let e = ManualInterventionReqException m;
                  msg = format_msg genbank_id (subscript PROPS ''GenBank Assembly accession'') ''''
                          (str_exn e) (Some (type_exn e))
              in Returned (log_append ''ERROR'' msg (st1\<lparr>world := w\<rparr>)))
         | (Inl (OtherException c m), w) \<Rightarrow> Raised (OtherException c m) (st1\<lparr>world := w\<rparr>)
         | (Inr item, w) \<Rightarrow>
             if item_wd_item_id lib item \<noteq> '''' then
               construct_and_write lib
                 (no_args\<lparr>data := [genbank_statement (gmtime lib w) genbank_id],
                          wd_item_id := item_wd_item_id lib item\<rparr>)
                 genbank_id (st1\<lparr>world := w\<rparr>)
             else
               (let msg = format_msg genbank_id (subscript PROPS ''GenBank Assembly accession'') ''''
                            (''No organism found with taxid '' @ str taxid) None
                in Returned (log_append ''WARNING'' msg (st1\<lparr>world := w\<rparr>))))"

section \<open>The bot, versions 2 and 3: bulk index and fast run (cells 24, 25, 29)\<close>

text \<open>
  \<^verbatim>\<open>{k: list(v)[0] for k, v in tax_qid_map.items() if len(v) == 1}\<close>, over the items
  of the dictionary that \<^verbatim>\<open>id_mapper\<close> returns. Its values are sets of entity ids; a
  set is given by a list of its elements, read through \<open>remdups\<close>.
\<close>

definition tax_qid_map_of :: "(string \<times> string list) list \<Rightarrow> (string \<times> string) list" where
  "tax_qid_map_of m =
     map (\<lambda>(k, v). (k, remdups v ! 0)) (filter (\<lambda>(k, v). length (remdups v) = 1) m)"

definition v2_args :: "struct_time \<Rightarrow> string \<Rightarrow> string \<Rightarrow> engine_args" where
  "v2_args now genbank_id qid =
     no_args\<lparr>data := [genbank_statement now genbank_id], wd_item_id := qid, fast_run := True,
             fast_run_base_filter := [(subscript PROPS ''GenBank Assembly accession'', '''')]\<rparr>"

text \<open>
  \<^verbatim>\<open>update_retrieved_if_new = partial(ref_handlers.update_retrieved_if_new, days=180)\<close>
\<close>

definition update_retrieved_if_new :: nat where
  "update_retrieved_if_new = 180"

definition v3_args :: "struct_time \<Rightarrow> string \<Rightarrow> string \<Rightarrow> engine_args" where
  "v3_args now genbank_id qid =
     (v2_args now genbank_id qid)\<lparr>global_ref_mode := Some ''CUSTOM'', fast_run_use_refs := True,
        ref_handler := Some update_retrieved_if_new\<rparr>"

text \<open>
  Cells 25 and 29 differ only in the keyword arguments of the constructor, which is the
  first argument here. \<open>tax_qid_map\<close> is the dictionary of cell 24, by its items.
\<close>

definition run_one_fast ::
  "(struct_time \<Rightarrow> string \<Rightarrow> string \<Rightarrow> engine_args) \<Rightarrow> ('w, 'i) wdi \<Rightarrow>
     (string \<times> string) list \<Rightarrow> int \<Rightarrow> string \<Rightarrow> 'w state \<Rightarrow> 'w result" where
  "run_one_fast mk_args lib tax_qid_map taxid0 genbank_id st =
     (let taxid = str taxid0
      in case map_of tax_qid_map taxid of
           None \<Rightarrow>
             (let msg = format_msg genbank_id (subscript PROPS ''GenBank Assembly accession'') ''''
                          (''organism with taxid '' @ taxid @ '' not found or skipped'') None
              in Returned (log_append ''WARNING'' msg st))
         | Some qid \<Rightarrow>
             construct_and_write lib (mk_args (gmtime lib (world st)) genbank_id qid)
               genbank_id st)"

definition run_one_v2 ::
  "('w, 'i) wdi \<Rightarrow> (string \<times> string) list \<Rightarrow> int \<Rightarrow> string \<Rightarrow> 'w state \<Rightarrow> 'w result" where
  "run_one_v2 = run_one_fast v2_args"

definition run_one_v3 ::
  "('w, 'i) wdi \<Rightarrow> (string \<times> string) list \<Rightarrow> int \<Rightarrow> string \<Rightarrow> 'w state \<Rightarrow> 'w result" where
  "run_one_v3 = run_one_fast v3_args"

text \<open>
  The loop of cells 26 and 30, \<^verbatim>\<open>for taxid, genbank_id in d.items(): run_one(...)\<close>:
  an exception that leaves \<^verbatim>\<open>run_one\<close> ends the loop. Cell 22 is the same loop for
  version 1 with the call commented out; for version 1 the loop is taken with the call
  in place.
\<close>

fun batch ::
  "(int \<Rightarrow> string \<Rightarrow> 'w state \<Rightarrow> 'w result) \<Rightarrow> (int \<times> string) list \<Rightarrow> 'w state \<Rightarrow> 'w result" where
  "batch run_one [] st = Returned st"
| "batch run_one ((taxid, genbank_id) # items) st =
     (case run_one taxid genbank_id st of
        Returned st' \<Rightarrow> batch run_one items st'
      | Raised e st' \<Rightarrow> Raised e st')"

section \<open>The remote store and the library, as the specification describes them\<close>

text \<open>
  Modelled from the spec: the remote store, which is not part of the notebook. A snapshot
  lists the pairs (entity id, value) of the statements of the identifying property
  (section 6, "query-by-property-value returning zero-or-more entity ids").
\<close>

type_synonym snapshot = "(string \<times> string) list"

definition query_by_value :: "snapshot \<Rightarrow> string \<Rightarrow> string list" where
  "query_by_value snap v = remdups (map fst (filter (\<lambda>(q, x). x = v) snap))"

text \<open>
  Modelled from the spec: the per-record lookup of the library (the constructor with
  \<^verbatim>\<open>search_only=True\<close>), missing from the sources. Section 4.2: "issues a remote query
  filtered by the identifying property value; if more than one entity matches, this is an
  unresolvable-ambiguity condition [...]. If zero matches, returns none."
\<close>

datatype resolution = Found string | NotFound | Ambiguous

definition resolve_per_record :: "snapshot \<Rightarrow> string \<Rightarrow> resolution" where
  "resolve_per_record snap v =
     (case query_by_value snap v of [] \<Rightarrow> NotFound | [q] \<Rightarrow> Found q | _ \<Rightarrow> Ambiguous)"

text \<open>
  Modelled from the spec: \<^verbatim>\<open>wdi_helpers.id_mapper(prop, return_as_set=True)\<close>, missing
  from the sources. Section 4.2: "fetches, in one pass, the entire identifier \<rightarrow> entity-set
  index for the identifying property".
\<close>

definition id_mapper :: "snapshot \<Rightarrow> (string \<times> string list) list" where
  "id_mapper snap = map (\<lambda>v. (v, query_by_value snap v)) (remdups (map snd snap))"

text \<open>
  Modelled from the spec: what the notebook's comment in cell 20 and section 4.2 say of the
  lookup of the library, as a condition on the parameter: where more than one entity of the
  snapshot carries the taxonomy id, the constructor raises
  \<^verbatim>\<open>ManualInterventionReqException\<close>.
\<close>

definition raises_on_ambiguity :: "('w, 'i) wdi \<Rightarrow> snapshot \<Rightarrow> bool" where
  "raises_on_ambiguity lib snap \<longleftrightarrow>
     (\<forall>taxid w. resolve_per_record snap (str taxid) = Ambiguous \<longrightarrow>
        (\<exists>m w'. WDItemEngine lib (search_args taxid) w
                  = (Inl (ManualInterventionReqException m), w')))"

text \<open>
  Modelled from the spec: the decision of the library in fast-run mode (section 4.3),
  missing from the sources. The existing state of an entity lists the values present
  for the property, each with the day of the "retrieved" stamp of its first reference
  group and of its further groups. A matching value is a no-op, unless references are
  checked and the most recently retrieved group is stale; section 8 fixes the boundary:
  "treat >= 180 as stale".
\<close>

datatype write_plan = Create | NoOp | UpdateReference

type_synonym existing_state = "(string \<times> int \<times> int list) list"

definition is_stale :: "nat \<Rightarrow> int \<Rightarrow> int \<Rightarrow> bool" where
  "is_stale days retrieved today \<longleftrightarrow> int days \<le> today - retrieved"

fun plan :: "engine_args \<Rightarrow> statement \<Rightarrow> existing_state \<Rightarrow> int \<Rightarrow> write_plan" where
  "plan args (WDExternalID v p refs) existing today =
     (if \<not> fast_run args then Create
      else case map_of existing v of
             None \<Rightarrow> Create
           | Some (r, rs) \<Rightarrow>
               (case (fast_run_use_refs args, ref_handler args) of
                  (True, Some days) \<Rightarrow>
                    if is_stale days (fold max rs r) today then UpdateReference else NoOp
                | _ \<Rightarrow> NoOp))"

section \<open>Two instances of the library\<close>

text \<open>
  A library over a fixed snapshot and a fixed clock: the lookup answers as
  \<open>resolve_per_record\<close> does, the constructor for a given entity succeeds, and
  \<^verbatim>\<open>try_write\<close> logs one line.
\<close>

definition snapshot_wdi :: "snapshot \<Rightarrow> struct_time \<Rightarrow> (unit, string) wdi" where
  "snapshot_wdi snap t =
     \<lparr>WDItemEngine = (\<lambda>args w.
        if search_only args then
          (case data args of
             [WDExternalID v p refs] \<Rightarrow>
               (case resolve_per_record snap v of
                  Ambiguous \<Rightarrow> (Inl (ManualInterventionReqException ''more than one item''), w)
                | Found q \<Rightarrow> (Inr q, w)
                | NotFound \<Rightarrow> (Inr '''', w))
           | _ \<Rightarrow> (Inr '''', w))
        else (Inr (wd_item_id args), w)),
      item_wd_item_id = (\<lambda>q. q),
      try_write = (\<lambda>q wa w.
        (\<lparr>level = ''INFO'',
          body = format_msg (record_id wa) (record_prop wa) q ''SKIP'' None\<rparr>, w)),
      gmtime = (\<lambda>w. t)\<rparr>"

text \<open>A library whose constructor fails with a network error on every call.\<close>

definition unreachable_wdi :: "struct_time \<Rightarrow> (unit, string) wdi" where
  "unreachable_wdi t =
     \<lparr>WDItemEngine = (\<lambda>args w. (Inl (OtherException ''ConnectionError'' ''timed out''), w)),
      item_wd_item_id = (\<lambda>q. q),
      try_write = (\<lambda>q wa w.
        (\<lparr>level = ''INFO'',
          body = format_msg (record_id wa) (record_prop wa) q ''SKIP'' None\<rparr>, w)),
      gmtime = (\<lambda>w. t)\<rparr>"

definition day_2017_10_13 :: struct_time where
  "day_2017_10_13 =
     \<lparr>tm_year = 2017, tm_mon = 10, tm_mday = 13, tm_hour = 13, tm_min = 50, tm_sec = 10\<rparr>"

definition empty_state :: "unit state" where
  "empty_state = \<lparr>log = [], calls = [], world = ()\<rparr>"

text \<open>A snapshot in which two entities carry the taxonomy id 9.\<close>

definition shared_taxid :: snapshot where
  "shared_taxid = [(''Q100'', ''9''), (''Q200'', ''9''), (''Q383453'', ''1366'')]"

text \<open>
  A condition on the library parameter: the only exception that the constructor raises
  is \<^verbatim>\<open>ManualInterventionReqException\<close>, and only on a search-only lookup, where
  cell 20 catches it.
\<close>

definition raises_only_on_ambiguous_lookup :: "('w, 'i) wdi \<Rightarrow> bool" where
  "raises_only_on_ambiguous_lookup lib \<longleftrightarrow>
     (\<forall>args w e w'. WDItemEngine lib args w = (Inl e, w') \<longrightarrow>
        search_only args \<and> (\<exists>m. e = ManualInterventionReqException m))"

text \<open>An index with one entry, and a batch of two records.\<close>

definition one_entry_index :: "(string \<times> string) list" where
  "one_entry_index = [(''9'', ''Q383453'')]"

definition two_records :: "(int \<times> string) list" where
  "two_records = [(9, ''GCA_900128725.1''), (679936, ''GCA_000237975.1'')]"

text \<open>
  A library over a snapshot whose lookup answers as \<open>snapshot_wdi\<close> does, and whose
  constructor for a given entity raises: the accession is already on another item, and
  P4333 was declared a core property in cell 12.
\<close>

definition conflict_wdi :: "snapshot \<Rightarrow> struct_time \<Rightarrow> (unit, string) wdi" where
  "conflict_wdi snap t =
     (snapshot_wdi snap t)\<lparr>WDItemEngine := (\<lambda>args w.
        if search_only args then WDItemEngine (snapshot_wdi snap t) args w
        else (Inl (ManualInterventionReqException ''value already on another item''), w))\<rparr>"

definition day_2018_01_05 :: struct_time where
  "day_2018_01_05 =
     \<lparr>tm_year = 2018, tm_mon = 1, tm_mday = 5, tm_hour = 23, tm_min = 59, tm_sec = 59\<rparr>"

text \<open>
  Modelled from the spec: \<^verbatim>\<open>WDItemEngine.setup_logging(header=...)\<close> and the log stream
  of the library, missing from the sources. Section 4.5: the log is append-only, with "one
  line per outcome", and "a header entry records run metadata"; in the log of cell 27 the
  header is the first line. The stream of a run is the header entry that
  \<^verbatim>\<open>setup_logging\<close> writes, followed by the lines logged since.
\<close>

datatype stream_entry = HeaderEntry "(string \<times> string) list" | LineEntry log_line

definition setup_logging :: "(string \<times> string) list \<Rightarrow> stream_entry list" where
  "setup_logging header = [HeaderEntry header]"

definition log_stream :: "(string \<times> string) list \<Rightarrow> 'w state \<Rightarrow> stream_entry list" where
  "log_stream header st = setup_logging header @ map LineEntry (log st)"

text \<open>
  Cell 16 followed by a loop: the logging is set up with the header of cell 16, the log
  has no line yet, and the loop runs; the result is the log stream at the end.
\<close>

definition stream_after_batch ::
  "string \<Rightarrow> string \<Rightarrow> (int \<Rightarrow> string \<Rightarrow> 'w state \<Rightarrow> 'w result) \<Rightarrow> (int \<times> string) list \<Rightarrow>
     'w \<Rightarrow> stream_entry list" where
  "stream_after_batch now1 now2 run_one items w =
     log_stream (logging_header now1 now2)
       (final_state (batch run_one items \<lparr>log = [], calls = [], world = w\<rparr>))"

section \<open>The loader\<close>

lemma map_of_groupby_agg:
  "map_of (groupby_agg df) k =
     (if k \<in> TaxID ` set df
      then Some (map Assembly_Accession (filter (\<lambda>r. TaxID r = k) df)) else None)"
proof -
  have "map_of (map (\<lambda>k. (k, f k)) ks) k = (if k \<in> set ks then Some (f k) else None)"
    for f :: "int \<Rightarrow> string list" and ks
    by (induction ks) auto
  then show ?thesis
    by (simp add: groupby_agg_def)
qed

lemma distinct_keys_groupby_agg: "distinct (map fst (groupby_agg df))"
  by (simp add: groupby_agg_def comp_def)

lemma map_of_single_accession:
  "distinct (map fst d) \<Longrightarrow>
   map_of (single_accession d) k =
     (case map_of d k of
        None \<Rightarrow> None
      | Some v \<Rightarrow> if length v = 1 then Some (v ! 0) else None)"
proof (induction d)
  case Nil
  then show ?case by (simp add: single_accession_def)
next
  case (Cons p d)
  obtain k' v' where p: "p = (k', v')" by (cases p)
  from Cons.prems have fresh: "k' \<notin> fst ` set d" and dist: "distinct (map fst d)"
    by (auto simp: p)
  from fresh have none: "map_of d k' = None"
    by (simp add: map_of_eq_None_iff)
  from Cons.IH [OF dist] have IH:
    "map_of (single_accession d) k =
       (case map_of d k of None \<Rightarrow> None
        | Some v \<Rightarrow> if length v = 1 then Some (v ! 0) else None)" .
  show ?case
  proof (cases "k = k'")
    case True
    have "map_of (single_accession d) k' = None"
      using Cons.IH [OF dist] none
      by (metis IH True option.simps(4))
    then show ?thesis
      using True by (simp add: p single_accession_def)
  next
    case False
    then show ?thesis
      using IH by (simp add: p single_accession_def)
  qed
qed

lemma filter_query_status:
  "filter (\<lambda>r. TaxID r = k) (query_status df) =
     filter (\<lambda>r. Status r = ''Complete Genome'' \<and> TaxID r = k) df"
  by (simp add: query_status_def conj_commute)

lemma map_of_load_d:
  "map_of (load_d df) k =
     (if length (admitted_accessions df k) = 1
      then Some (admitted_accessions df k ! 0) else None)"
proof -
  let ?q = "query_status df"
  have acc: "map Assembly_Accession (filter (\<lambda>r. TaxID r = k) ?q) = admitted_accessions df k"
    by (simp add: filter_query_status admitted_accessions_def)
  show ?thesis
  proof (cases "k \<in> TaxID ` set ?q")
    case True
    then show ?thesis
      by (simp add: load_d_def map_of_single_accession distinct_keys_groupby_agg
          map_of_groupby_agg acc)
  next
    case False
    then have "filter (\<lambda>r. TaxID r = k) ?q = []"
      by (auto simp: filter_empty_conv)
    then have "admitted_accessions df k = []"
      using acc by simp
    then show ?thesis
      using False
      by (simp add: load_d_def map_of_single_accession distinct_keys_groupby_agg
          map_of_groupby_agg)
  qed
qed

text \<open>
  Claim C1, as amended. The groups of cell 8 are lists, and the filter keeps a key when
  its list has length 1: the output has the key \<open>k\<close> exactly when one admitted row
  has that key, rows counted with repetition, and the value is the accession of that
  row. Then the set of distinct values is that singleton, and a key whose set of distinct
  values has more than one element is absent.
\<close>

theorem loader_single_row:
  "(map_of (load_d df) k = Some a \<longleftrightarrow> admitted_accessions df k = [a]) \<and>
   (map_of (load_d df) k = Some a \<longrightarrow> spec_distinct_values df k = {a}) \<and>
   (1 < card (spec_distinct_values df k) \<longrightarrow> map_of (load_d df) k = None)"
proof (intro conjI impI)
  show iff: "map_of (load_d df) k = Some a \<longleftrightarrow> admitted_accessions df k = [a]"
    by (cases "admitted_accessions df k")
       (auto simp: map_of_load_d)
  have set_eq: "spec_distinct_values df k = set (admitted_accessions df k)"
    by (simp add: spec_distinct_values_def admitted_accessions_def)
  show "spec_distinct_values df k = {a}" if "map_of (load_d df) k = Some a"
    using that iff set_eq by simp
  show "map_of (load_d df) k = None" if "1 < card (spec_distinct_values df k)"
  proof -
    have "card (set (admitted_accessions df k)) \<le> length (admitted_accessions df k)"
      by (rule card_length)
    with that set_eq have "length (admitted_accessions df k) \<noteq> 1" by simp
    then show ?thesis by (simp add: map_of_load_d)
  qed
qed

theorem loader_single_row_witness:
  "map_of (load_d two_rows) 9 = Some ''GCA_900128725.1'' \<and>
   spec_distinct_values two_rows 9 = {''GCA_900128725.1''} \<and>
   1 < card (spec_distinct_values two_rows 1366) \<and>
   map_of (load_d two_rows) 1366 = None"
proof -
  have a: "admitted_accessions two_rows 9 = [''GCA_900128725.1'']"
    by (simp add: admitted_accessions_def two_rows_def)
  have c: "1 < card (spec_distinct_values two_rows 1366)"
    by (simp add: spec_distinct_values_def two_rows_def)
  from loader_single_row [of two_rows 9 "''GCA_900128725.1''"] a
    loader_single_row [of two_rows 1366 "''x''"] c
  show ?thesis by simp
qed

text \<open>
  As stated, C1 asks for the key whenever the set of distinct values has one element. Two
  admitted rows with the same key and the same accession have one distinct value, and
  the key is dropped.
\<close>

theorem loader_distinct_values_counterexample:
  "card (spec_distinct_values duplicate_rows 9) = 1 \<and> map_of (load_d duplicate_rows) 9 = None"
  by (simp add: spec_distinct_values_def duplicate_rows_def map_of_load_d admitted_accessions_def)

section \<open>Facts about the notebook's constants and helpers\<close>

lemma PROPS_simps:
  "subscript PROPS ''NCBI Taxonomy ID'' = ''P685''"
  "subscript PROPS ''GenBank Assembly accession'' = ''P4333''"
  "subscript PROPS ''stated in'' = ''P248''"
  "subscript PROPS ''retrieved'' = ''P813''"
  "subscript PROPS ''reference URL'' = ''P854''"
  "subscript ITEMS ''GenBank'' = ''Q901755''"
  by (simp_all add: subscript_def PROPS_def ITEMS_def)

lemma str_679936: "str 679936 = ''679936''"
  by (simp add: str_def str_nat.simps digit_def)

lemma str_9: "str 9 = ''9''"
  by (simp add: str_def str_nat.simps digit_def)

lemma str_negative: "str (- 45) = ''-45''"
  by (simp add: str_def str_nat.simps digit_def)

text \<open>
  The decimal string of an integer consists of digits after an optional minus sign, and
  distinct integers have distinct strings: two taxonomy ids never consult the same key.
\<close>

lemma digit_inj: "a < 10 \<Longrightarrow> b < 10 \<Longrightarrow> digit a = digit b \<Longrightarrow> a = b"
proof -
  assume a: "a < 10" and b: "b < 10" and e: "digit a = digit b"
  have d: "distinct ''0123456789''" by simp
  from a b have "a < length ''0123456789''" "b < length ''0123456789''" by simp_all
  with d e show "a = b"
    unfolding digit_def by (simp only: nth_eq_iff_index_eq)
qed

lemma digit_in_digits: "n < 10 \<Longrightarrow> digit n \<in> set ''0123456789''"
  unfolding digit_def by (rule nth_mem) simp

lemma str_nat_digits: "set (str_nat n) \<subseteq> set ''0123456789''"
proof (induction n rule: str_nat.induct)
  case (1 n)
  show ?case
  proof (cases "n < 10")
    case True
    then show ?thesis
      using digit_in_digits [of n] by (subst str_nat.simps) simp
  next
    case False
    have "n mod 10 < 10" by simp
    then have "digit (n mod 10) \<in> set ''0123456789''"
      by (rule digit_in_digits)
    with False 1 show ?thesis
      by (subst str_nat.simps) simp
  qed
qed

lemma str_nat_nonempty: "str_nat n \<noteq> []"
  by (subst str_nat.simps) simp

lemma str_nat_inj: "str_nat n = str_nat m \<Longrightarrow> n = m"
proof (induction n arbitrary: m rule: str_nat.induct)
  case (1 n)
  show ?case
  proof (cases "n < 10")
    case n: True
    then have sn: "str_nat n = [digit n]"
      by (subst str_nat.simps) simp
    show ?thesis
    proof (cases "m < 10")
      case True
      then have "str_nat m = [digit m]"
        by (subst str_nat.simps) simp
      with sn "1.prems" n True show ?thesis
        by (simp add: digit_inj)
    next
      case False
      then have "str_nat m = str_nat (m div 10) @ [digit (m mod 10)]"
        by (subst str_nat.simps) simp
      with sn "1.prems" str_nat_nonempty [of "m div 10"] show ?thesis
        by (cases "str_nat (m div 10)") simp_all
    qed
  next
    case n: False
    then have sn: "str_nat n = str_nat (n div 10) @ [digit (n mod 10)]"
      by (subst str_nat.simps) simp
    show ?thesis
    proof (cases "m < 10")
      case True
      then have "str_nat m = [digit m]"
        by (subst str_nat.simps) simp
      with sn "1.prems" str_nat_nonempty [of "n div 10"] show ?thesis
        by (cases "str_nat (n div 10)") simp_all
    next
      case False
      then have "str_nat m = str_nat (m div 10) @ [digit (m mod 10)]"
        by (subst str_nat.simps) simp
      with sn "1.prems" have eq: "str_nat (n div 10) = str_nat (m div 10)"
        and dg: "digit (n mod 10) = digit (m mod 10)"
        by simp_all
      from "1.IH" [OF n eq] have "n div 10 = m div 10" .
      moreover from dg have "n mod 10 = m mod 10"
        by (rule digit_inj [rotated 2]) simp_all
      ultimately show ?thesis
        by (metis div_mult_mod_eq)
    qed
  qed
qed

lemma str_inj: "str i = str j \<Longrightarrow> i = j"
proof -
  assume e: "str i = str j"
  have nd: "CHR ''-'' \<notin> set (str_nat k)" for k
    using str_nat_digits [of k] by auto
  have hd_ne: "str_nat k \<noteq> CHR ''-'' # s" for k s
    using nd [of k] by auto
  show "i = j"
  proof (cases "i < 0"; cases "j < 0")
    assume "i < 0" "j < 0"
    with e have "nat (- i) = nat (- j)"
      by (simp add: str_def str_nat_inj)
    with \<open>i < 0\<close> \<open>j < 0\<close> show ?thesis by simp
  next
    assume "i < 0" "\<not> j < 0"
    with e hd_ne [of "nat j"] show ?thesis
      by (simp add: str_def) metis
  next
    assume "\<not> i < 0" "j < 0"
    with e hd_ne [of "nat i"] show ?thesis
      by (simp add: str_def)
  next
    assume "\<not> i < 0" "\<not> j < 0"
    with e have "nat i = nat j"
      by (simp add: str_def str_nat_inj)
    with \<open>\<not> i < 0\<close> \<open>\<not> j < 0\<close> show ?thesis by simp
  qed
qed

lemma create_reference_example:
  "create_reference day_2017_10_13 ''GCA_900128725.1'' =
     [WDItemID ''Q901755'' ''P248'' True,
      WDTime ''+2017-10-13T00:00:00Z'' ''P813'' True,
      WDUrl ''https://www.ncbi.nlm.nih.gov/genome/?term=GCA_900128725.1'' ''P854'' True]"
  by (simp add: create_reference_def Let_def strftime_retrieved_def PROPS_simps
      day_2017_10_13_def zero_pad2_def str_nat.simps digit_def)

lemma construct_and_write_raised:
  "WDItemEngine lib args (world st) = (Inl e, w) \<Longrightarrow>
   construct_and_write lib args g st
     = Raised e (st\<lparr>calls := calls st @ [EngineCall args], world := w\<rparr>)"
  by (simp add: construct_and_write_def)

lemma construct_and_write_returned:
  "WDItemEngine lib args (world st) = (Inr i, w) \<Longrightarrow>
   construct_and_write lib args g st
     = Returned (st\<lparr>calls := calls st @ [EngineCall args, TryWriteCall args (write_args_of g)],
                    log := log st @ [fst (try_write lib i (write_args_of g) w)],
                    world := snd (try_write lib i (write_args_of g) w)\<rparr>)"
  by (simp add: construct_and_write_def Let_def split: prod.splits)

lemma engine_cases:
  obtains (raised) e w where "WDItemEngine lib args x = (Inl e, w)"
  | (returned) i w where "WDItemEngine lib args x = (Inr i, w)"
proof (cases "WDItemEngine lib args x")
  case (Pair r w)
  then show ?thesis
    by (cases r) (auto intro: raised returned)
qed

lemma run_one_fast_miss:
  "map_of tqm (str taxid) = None \<Longrightarrow>
   run_one_fast mk lib tqm taxid g st
     = Returned (st\<lparr>log := log st @
         [\<lparr>level = ''WARNING'',
           body = \<lparr>external_id = g, external_id_prop = ''P4333'', wdid = '''',
                   msg_text = ''organism with taxid '' @ str taxid @ '' not found or skipped'',
                   msg_type = None\<rparr>\<rparr>]\<rparr>)"
  by (simp add: run_one_fast_def Let_def log_append_def format_msg_def PROPS_simps)

lemma run_one_fast_hit:
  "map_of tqm (str taxid) = Some q \<Longrightarrow>
   run_one_fast mk lib tqm taxid g st
     = construct_and_write lib (mk (gmtime lib (world st)) g q) g st"
  by (simp add: run_one_fast_def Let_def)

section \<open>References\<close>

lemma str_nat_lt10: "n < 10 \<Longrightarrow> str_nat n = [''0123456789'' ! n]"
  by (subst str_nat.simps) (simp add: digit_def)

lemma str_nat_ge10:
  "10 \<le> n \<Longrightarrow> str_nat n = str_nat (n div 10) @ [''0123456789'' ! (n mod 10)]"
  by (subst str_nat.simps) (simp add: digit_def)

lemma str_nat_two_digits:
  assumes "10 \<le> n" "n < 100"
  shows "str_nat n = [''0123456789'' ! (n div 10), ''0123456789'' ! (n mod 10)]"
proof -
  from assms have "n div 10 < 10" by simp
  with assms show ?thesis
    by (simp add: str_nat_ge10 str_nat_lt10)
qed

lemma str_nat_four_digits:
  assumes "1000 \<le> n" "n < 10000"
  shows "str_nat n = [''0123456789'' ! (n div 1000), ''0123456789'' ! (n div 100 mod 10),
                      ''0123456789'' ! (n div 10 mod 10), ''0123456789'' ! (n mod 10)]"
proof -
  have d2: "n div 10 div 10 = n div 100" and d3: "n div 100 div 10 = n div 1000"
    by (simp_all add: div_mult2_eq [symmetric])
  from assms have a: "10 \<le> n" "10 \<le> n div 10" "10 \<le> n div 100" "n div 1000 < 10"
    by simp_all
  have "str_nat n = str_nat (n div 10) @ [''0123456789'' ! (n mod 10)]"
    using a(1) by (rule str_nat_ge10)
  also have "str_nat (n div 10) = str_nat (n div 100) @ [''0123456789'' ! (n div 10 mod 10)]"
    using str_nat_ge10 [OF a(2)] by (simp only: d2)
  also have "str_nat (n div 100) = str_nat (n div 1000) @ [''0123456789'' ! (n div 100 mod 10)]"
    using str_nat_ge10 [OF a(3)] by (simp only: d3)
  also have "str_nat (n div 1000) = [''0123456789'' ! (n div 1000)]"
    using a(4) by (rule str_nat_lt10)
  finally show ?thesis by simp
qed

lemma zero_pad2_two_digits:
  assumes "n < 100"
  shows "zero_pad2 n = [''0123456789'' ! (n div 10), ''0123456789'' ! (n mod 10)]"
proof (cases "n < 10")
  case True
  then show ?thesis
    by (simp add: zero_pad2_def str_nat_lt10)
next
  case False
  with assms show ?thesis
    by (simp add: zero_pad2_def str_nat_two_digits)
qed

text \<open>
  Claim C10. For every accession \<open>g\<close> and every reading \<open>now\<close> of the UTC clock,
  \<open>create_reference\<close> returns three reference statements in this order: "stated in"
  (P248) the GenBank item Q901755; "retrieved" (P813) the date of \<open>now\<close> followed by the
  fixed time of day 00:00:00; "reference URL" (P854) the genome URL followed by \<open>g\<close>.
  For a date of the calendar with a four-digit year, the retrieved value is a plus sign,
  the four decimal digits of the year, the two of the month and the two of the day,
  separated by hyphens, and then the text T00:00:00Z; so it is
  \<^verbatim>\<open>+2018-01-05T00:00:00Z\<close> late on 5 January 2018. The hour, minute and second of the
  clock have no effect.
\<close>

theorem create_reference_three_statements:
  "create_reference now g =
     [WDItemID ''Q901755'' ''P248'' True,
      WDTime (''+'' @ str_nat (tm_year now) @ ''-'' @ zero_pad2 (tm_mon now) @ ''-''
                @ zero_pad2 (tm_mday now) @ ''T00:00:00Z'') ''P813'' True,
      WDUrl (''https://www.ncbi.nlm.nih.gov/genome/?term='' @ g) ''P854'' True] \<and>
   (1000 \<le> tm_year now \<and> tm_year now < 10000 \<and> 1 \<le> tm_mon now \<and> tm_mon now \<le> 12 \<and>
    1 \<le> tm_mday now \<and> tm_mday now \<le> 31 \<longrightarrow>
      create_reference now g ! 1 =
        WDTime (''+'' @ map (\<lambda>k. ''0123456789'' ! k)
                        [tm_year now div 1000, tm_year now div 100 mod 10,
                         tm_year now div 10 mod 10, tm_year now mod 10]
                 @ ''-'' @ map (\<lambda>k. ''0123456789'' ! k) [tm_mon now div 10, tm_mon now mod 10]
                 @ ''-'' @ map (\<lambda>k. ''0123456789'' ! k) [tm_mday now div 10, tm_mday now mod 10]
                 @ ''T00:00:00Z'') ''P813'' True) \<and>
   create_reference (now\<lparr>tm_hour := h, tm_min := m, tm_sec := s\<rparr>) g = create_reference now g \<and>
   create_reference
       \<lparr>tm_year = 2018, tm_mon = 1, tm_mday = 5, tm_hour = 23, tm_min = 59, tm_sec = 59\<rparr> g =
     [WDItemID ''Q901755'' ''P248'' True,
      WDTime ''+2018-01-05T00:00:00Z'' ''P813'' True,
      WDUrl (''https://www.ncbi.nlm.nih.gov/genome/?term='' @ g) ''P854'' True] \<and>
   create_reference
       \<lparr>tm_year = 2017, tm_mon = 10, tm_mday = 13, tm_hour = 0, tm_min = 0, tm_sec = 0\<rparr> g =
     [WDItemID ''Q901755'' ''P248'' True,
      WDTime ''+2017-10-13T00:00:00Z'' ''P813'' True,
      WDUrl (''https://www.ncbi.nlm.nih.gov/genome/?term='' @ g) ''P854'' True]"
proof (intro conjI impI)
  show "create_reference now g =
     [WDItemID ''Q901755'' ''P248'' True,
      WDTime (''+'' @ str_nat (tm_year now) @ ''-'' @ zero_pad2 (tm_mon now) @ ''-''
                @ zero_pad2 (tm_mday now) @ ''T00:00:00Z'') ''P813'' True,
      WDUrl (''https://www.ncbi.nlm.nih.gov/genome/?term='' @ g) ''P854'' True]"
    by (simp add: create_reference_def Let_def strftime_retrieved_def PROPS_simps)
  show "create_reference (now\<lparr>tm_hour := h, tm_min := m, tm_sec := s\<rparr>) g
      = create_reference now g"
    by (simp add: create_reference_def Let_def strftime_retrieved_def)
  show "create_reference
       \<lparr>tm_year = 2018, tm_mon = 1, tm_mday = 5, tm_hour = 23, tm_min = 59, tm_sec = 59\<rparr> g =
     [WDItemID ''Q901755'' ''P248'' True,
      WDTime ''+2018-01-05T00:00:00Z'' ''P813'' True,
      WDUrl (''https://www.ncbi.nlm.nih.gov/genome/?term='' @ g) ''P854'' True]"
    by (simp add: create_reference_def Let_def strftime_retrieved_def PROPS_simps
        zero_pad2_def str_nat.simps digit_def)
  show "create_reference
       \<lparr>tm_year = 2017, tm_mon = 10, tm_mday = 13, tm_hour = 0, tm_min = 0, tm_sec = 0\<rparr> g =
     [WDItemID ''Q901755'' ''P248'' True,
      WDTime ''+2017-10-13T00:00:00Z'' ''P813'' True,
      WDUrl (''https://www.ncbi.nlm.nih.gov/genome/?term='' @ g) ''P854'' True]"
    by (simp add: create_reference_def Let_def strftime_retrieved_def PROPS_simps
        zero_pad2_def str_nat.simps digit_def)
next
  assume r: "1000 \<le> tm_year now \<and> tm_year now < 10000 \<and> 1 \<le> tm_mon now \<and> tm_mon now \<le> 12 \<and>
    1 \<le> tm_mday now \<and> tm_mday now \<le> 31"
  then have y: "str_nat (tm_year now) =
      [''0123456789'' ! (tm_year now div 1000), ''0123456789'' ! (tm_year now div 100 mod 10),
       ''0123456789'' ! (tm_year now div 10 mod 10), ''0123456789'' ! (tm_year now mod 10)]"
    by (simp add: str_nat_four_digits)
  from r have mo: "zero_pad2 (tm_mon now) =
      [''0123456789'' ! (tm_mon now div 10), ''0123456789'' ! (tm_mon now mod 10)]"
    by (simp add: zero_pad2_two_digits)
  from r have d: "zero_pad2 (tm_mday now) =
      [''0123456789'' ! (tm_mday now div 10), ''0123456789'' ! (tm_mday now mod 10)]"
    by (simp add: zero_pad2_two_digits)
  show "create_reference now g ! 1 =
        WDTime (''+'' @ map (\<lambda>k. ''0123456789'' ! k)
                        [tm_year now div 1000, tm_year now div 100 mod 10,
                         tm_year now div 10 mod 10, tm_year now mod 10]
                 @ ''-'' @ map (\<lambda>k. ''0123456789'' ! k) [tm_mon now div 10, tm_mon now mod 10]
                 @ ''-'' @ map (\<lambda>k. ''0123456789'' ! k) [tm_mday now div 10, tm_mday now mod 10]
                 @ ''T00:00:00Z'') ''P813'' True"
    by (simp add: create_reference_def Let_def strftime_retrieved_def PROPS_simps y mo d)
qed

theorem create_reference_three_statements_witness:
  "1000 \<le> tm_year day_2018_01_05 \<and> tm_year day_2018_01_05 < 10000 \<and>
   1 \<le> tm_mon day_2018_01_05 \<and> tm_mon day_2018_01_05 \<le> 12 \<and>
   1 \<le> tm_mday day_2018_01_05 \<and> tm_mday day_2018_01_05 \<le> 31 \<and>
   create_reference day_2018_01_05 ''GCA_900128725.1'' ! 1
     = WDTime ''+2018-01-05T00:00:00Z'' ''P813'' True"
proof -
  have r: "1000 \<le> tm_year day_2018_01_05 \<and> tm_year day_2018_01_05 < 10000 \<and>
   1 \<le> tm_mon day_2018_01_05 \<and> tm_mon day_2018_01_05 \<le> 12 \<and>
   1 \<le> tm_mday day_2018_01_05 \<and> tm_mday day_2018_01_05 \<le> 31"
    by (simp add: day_2018_01_05_def)
  from create_reference_three_statements [of day_2018_01_05 "''GCA_900128725.1''"] r
  have "create_reference day_2018_01_05 ''GCA_900128725.1'' ! 1 =
        WDTime (''+'' @ map (\<lambda>k. ''0123456789'' ! k)
                        [tm_year day_2018_01_05 div 1000, tm_year day_2018_01_05 div 100 mod 10,
                         tm_year day_2018_01_05 div 10 mod 10, tm_year day_2018_01_05 mod 10]
                 @ ''-'' @ map (\<lambda>k. ''0123456789'' ! k)
                        [tm_mon day_2018_01_05 div 10, tm_mon day_2018_01_05 mod 10]
                 @ ''-'' @ map (\<lambda>k. ''0123456789'' ! k)
                        [tm_mday day_2018_01_05 div 10, tm_mday day_2018_01_05 mod 10]
                 @ ''T00:00:00Z'') ''P813'' True"
    by blast
  then have "create_reference day_2018_01_05 ''GCA_900128725.1'' ! 1
     = WDTime ''+2018-01-05T00:00:00Z'' ''P813'' True"
    by (simp add: day_2018_01_05_def)
  with r show ?thesis by blast
qed

section \<open>The bulk index: records without an entry\<close>

text \<open>
  Claim C5. In the versions that use the bulk index (cells 25 and 29), a record whose
  key \<open>str taxid\<close> has no entry in \<open>tax_qid_map\<close> appends one WARNING line with the
  not-found message and returns: no constructor call and no write is made, and the
  world is as before.
\<close>

theorem index_miss_warning_no_call:
  assumes "map_of tax_qid_map (str taxid) = None"
  shows "run_one_v2 lib tax_qid_map taxid g st
           = Returned (st\<lparr>log := log st @
               [\<lparr>level = ''WARNING'',
                 body = \<lparr>external_id = g, external_id_prop = ''P4333'', wdid = '''',
                         msg_text = ''organism with taxid '' @ str taxid @ '' not found or skipped'',
                         msg_type = None\<rparr>\<rparr>]\<rparr>) \<and>
         run_one_v3 lib tax_qid_map taxid g st = run_one_v2 lib tax_qid_map taxid g st \<and>
         new_calls st (run_one_v2 lib tax_qid_map taxid g st) = [] \<and>
         world (final_state (run_one_v2 lib tax_qid_map taxid g st)) = world st"
  using assms by (simp add: run_one_v2_def run_one_v3_def run_one_fast_miss new_calls_def)

theorem index_miss_warning_no_call_witness:
  "map_of [(''1366'', ''Q25379953'')] (str 679936) = None \<and>
   run_one_v2 (snapshot_wdi [] day_2017_10_13) [(''1366'', ''Q25379953'')] 679936
       ''GCA_000237975.1'' empty_state
     = Returned \<lparr>log =
         [\<lparr>level = ''WARNING'',
           body = \<lparr>external_id = ''GCA_000237975.1'', external_id_prop = ''P4333'', wdid = '''',
                   msg_text = ''organism with taxid 679936 not found or skipped'',
                   msg_type = None\<rparr>\<rparr>], calls = [], world = ()\<rparr>"
proof -
  have h: "map_of [(''1366'', ''Q25379953'')] (str 679936) = None"
    by (simp add: str_679936)
  from index_miss_warning_no_call [OF h, of "snapshot_wdi [] day_2017_10_13"
      "''GCA_000237975.1''" empty_state]
  show ?thesis by (simp add: str_679936 empty_state_def)
qed

section \<open>Version 1: the ambiguous lookup\<close>

lemma ambiguous_iff:
  "resolve_per_record snap v = Ambiguous \<longleftrightarrow> 1 < length (query_by_value snap v)"
  by (auto simp: resolve_per_record_def split: list.splits)

lemma run_one_v1_ambiguous:
  "WDItemEngine lib (search_args taxid) (world st) = (Inl (ManualInterventionReqException m), w) \<Longrightarrow>
   run_one_v1 lib taxid g st
     = Returned (st\<lparr>calls := calls st @ [EngineCall (search_args taxid)],
                    log := log st @
                      [\<lparr>level = ''ERROR'',
                        body = \<lparr>external_id = g, external_id_prop = ''P4333'', wdid = '''',
                                msg_text = m,
                                msg_type = Some ''ManualInterventionReqException''\<rparr>\<rparr>],
                    world := w\<rparr>)"
  by (simp add: run_one_v1_def Let_def log_append_def format_msg_def PROPS_simps)

lemma raises_snapshot_wdi: "raises_on_ambiguity (snapshot_wdi snap t) snap"
  by (simp add: raises_on_ambiguity_def snapshot_wdi_def search_args_def no_args_def)

text \<open>
  Claim C4. In version 1 (one lookup per record), let the library raise
  \<^verbatim>\<open>ManualInterventionReqException\<close> where more than one entity of the store carries
  the taxonomy id, as the comment of cell 20 says it does. Then for every record whose
  taxonomy id is carried by more than one entity, \<^verbatim>\<open>run_one\<close> returns after
  appending one ERROR line for the record to the log; it makes no write, and the loop goes
  on with the next record.
\<close>

theorem ambiguous_lookup_logged_as_error:
  assumes "raises_on_ambiguity lib snap"
      and "1 < length (query_by_value snap (str taxid))"
  shows "\<exists>m w. run_one_v1 lib taxid g st
           = Returned (st\<lparr>calls := calls st @ [EngineCall (search_args taxid)],
                          log := log st @
                            [\<lparr>level = ''ERROR'',
                              body = \<lparr>external_id = g, external_id_prop = ''P4333'', wdid = '''',
                                      msg_text = m,
                                      msg_type = Some ''ManualInterventionReqException''\<rparr>\<rparr>],
                          world := w\<rparr>) \<and>
         \<not> (\<exists>c \<in> set (new_calls st (run_one_v1 lib taxid g st)). is_write c) \<and>
         batch (run_one_v1 lib) ((taxid, g) # items) st
           = batch (run_one_v1 lib) items (final_state (run_one_v1 lib taxid g st))"
proof -
  from assms(2) have "resolve_per_record snap (str taxid) = Ambiguous"
    by (simp add: ambiguous_iff)
  with assms(1) obtain m w where
    "WDItemEngine lib (search_args taxid) (world st) = (Inl (ManualInterventionReqException m), w)"
    unfolding raises_on_ambiguity_def by blast
  then have r: "run_one_v1 lib taxid g st
     = Returned (st\<lparr>calls := calls st @ [EngineCall (search_args taxid)],
                    log := log st @
                      [\<lparr>level = ''ERROR'',
                        body = \<lparr>external_id = g, external_id_prop = ''P4333'', wdid = '''',
                                msg_text = m,
                                msg_type = Some ''ManualInterventionReqException''\<rparr>\<rparr>],
                    world := w\<rparr>)"
    by (rule run_one_v1_ambiguous)
  have "\<not> (\<exists>c \<in> set (new_calls st (run_one_v1 lib taxid g st)). is_write c)"
    by (simp add: r new_calls_def)
  moreover have "batch (run_one_v1 lib) ((taxid, g) # items) st
           = batch (run_one_v1 lib) items (final_state (run_one_v1 lib taxid g st))"
    by (simp add: r)
  ultimately show ?thesis using r by blast
qed

theorem ambiguous_lookup_logged_as_error_witness:
  "raises_on_ambiguity (snapshot_wdi shared_taxid day_2017_10_13) shared_taxid \<and>
   1 < length (query_by_value shared_taxid (str 9)) \<and>
   run_one_v1 (snapshot_wdi shared_taxid day_2017_10_13) 9 ''GCA_900128725.1'' empty_state
     = Returned \<lparr>log =
         [\<lparr>level = ''ERROR'',
           body = \<lparr>external_id = ''GCA_900128725.1'', external_id_prop = ''P4333'', wdid = '''',
                   msg_text = ''more than one item'',
                   msg_type = Some ''ManualInterventionReqException''\<rparr>\<rparr>],
         calls = [EngineCall (search_args 9)], world = ()\<rparr>"
proof -
  have a: "raises_on_ambiguity (snapshot_wdi shared_taxid day_2017_10_13) shared_taxid"
    by (rule raises_snapshot_wdi)
  have b: "1 < length (query_by_value shared_taxid (str 9))"
    by (simp add: str_9 query_by_value_def shared_taxid_def)
  from ambiguous_lookup_logged_as_error [OF a b, of "''GCA_900128725.1''" empty_state "[]"]
  obtain m w where
    r: "run_one_v1 (snapshot_wdi shared_taxid day_2017_10_13) 9 ''GCA_900128725.1'' empty_state
      = Returned (empty_state\<lparr>calls := calls empty_state @ [EngineCall (search_args 9)],
           log := log empty_state @
             [\<lparr>level = ''ERROR'',
               body = \<lparr>external_id = ''GCA_900128725.1'', external_id_prop = ''P4333'',
                       wdid = '''', msg_text = m,
                       msg_type = Some ''ManualInterventionReqException''\<rparr>\<rparr>],
           world := w\<rparr>)"
    by blast
  have v: "run_one_v1 (snapshot_wdi shared_taxid day_2017_10_13) 9 ''GCA_900128725.1'' empty_state
     = Returned \<lparr>log =
         [\<lparr>level = ''ERROR'',
           body = \<lparr>external_id = ''GCA_900128725.1'', external_id_prop = ''P4333'', wdid = '''',
                   msg_text = ''more than one item'',
                   msg_type = Some ''ManualInterventionReqException''\<rparr>\<rparr>],
         calls = [EngineCall (search_args 9)], world = ()\<rparr>"
    by (simp add: run_one_v1_def snapshot_wdi_def search_args_def no_args_def str_9
        resolve_per_record_def query_by_value_def shared_taxid_def Let_def log_append_def
        format_msg_def PROPS_simps empty_state_def)
  from r v have "m = ''more than one item''"
    by (simp add: empty_state_def)
  with r have "run_one_v1 (snapshot_wdi shared_taxid day_2017_10_13) 9 ''GCA_900128725.1''
      empty_state
     = Returned \<lparr>log =
         [\<lparr>level = ''ERROR'',
           body = \<lparr>external_id = ''GCA_900128725.1'', external_id_prop = ''P4333'', wdid = '''',
                   msg_text = ''more than one item'',
                   msg_type = Some ''ManualInterventionReqException''\<rparr>\<rparr>],
         calls = [EngineCall (search_args 9)], world = ()\<rparr>"
    by (simp add: empty_state_def)
  with a b show ?thesis by simp
qed

section \<open>The bulk index: which entity a record is written to\<close>


lemma wd_item_id_args [simp]:
  "wd_item_id (v2_args now g q) = q" "wd_item_id (v3_args now g q) = q"
  by (simp_all add: v2_args_def v3_args_def no_args_def)



section \<open>Resolution: bulk index against per-record lookup\<close>

lemma map_of_tax_qid_map_of:
  "distinct (map fst m) \<Longrightarrow>
   map_of (tax_qid_map_of m) k =
     (case map_of m k of
        None \<Rightarrow> None
      | Some v \<Rightarrow> if length (remdups v) = 1 then Some (remdups v ! 0) else None)"
proof (induction m)
  case Nil
  then show ?case by (simp add: tax_qid_map_of_def)
next
  case (Cons p m)
  obtain k' v' where p: "p = (k', v')" by (cases p)
  from Cons.prems have dist: "distinct (map fst m)" and fresh: "k' \<notin> fst ` set m"
    by (auto simp: p)
  have tl: "tax_qid_map_of ((k', v') # m) =
      (if length (remdups v') = 1 then [(k', remdups v' ! 0)] else []) @ tax_qid_map_of m"
    by (simp add: tax_qid_map_of_def)
  from fresh have none: "map_of m k' = None"
    by (simp add: map_of_eq_None_iff)
  from Cons.IH [OF dist] have IH:
    "map_of (tax_qid_map_of m) k =
       (case map_of m k of None \<Rightarrow> None
        | Some v \<Rightarrow> if length (remdups v) = 1 then Some (remdups v ! 0) else None)" .
  show ?case
  proof (cases "k = k'")
    case True
    with IH none have "map_of (tax_qid_map_of m) k' = None"
      by simp
    with True show ?thesis
      unfolding p tl by simp
  next
    case False
    with IH show ?thesis
      unfolding p tl by simp
  qed
qed

lemma map_of_id_mapper:
  "map_of (id_mapper snap) k =
     (if k \<in> snd ` set snap then Some (query_by_value snap k) else None)"
proof -
  have "map_of (map (\<lambda>v. (v, f v)) ks) k = (if k \<in> set ks then Some (f k) else None)"
    for f :: "string \<Rightarrow> string list" and ks
    by (induction ks) auto
  then show ?thesis
    by (simp add: id_mapper_def)
qed

lemma distinct_keys_id_mapper: "distinct (map fst (id_mapper snap))"
  by (simp add: id_mapper_def comp_def)

lemma query_by_value_empty:
  assumes "k \<notin> snd ` set snap"
  shows "query_by_value snap k = []"
proof -
  from assms have "\<forall>p \<in> set snap. snd p \<noteq> k"
    by (metis imageI)
  then show ?thesis
    by (auto simp: query_by_value_def filter_empty_conv)
qed

lemma remdups_query_by_value: "remdups (query_by_value snap k) = query_by_value snap k"
  by (simp add: query_by_value_def)

lemma bulk_lookup:
  "map_of (tax_qid_map_of (id_mapper snap)) k =
     (case query_by_value snap k of [q] \<Rightarrow> Some q | _ \<Rightarrow> None)"
proof (cases "k \<in> snd ` set snap")
  case True
  then have "map_of (tax_qid_map_of (id_mapper snap)) k =
      (if length (query_by_value snap k) = 1 then Some (query_by_value snap k ! 0) else None)"
    by (simp add: map_of_tax_qid_map_of distinct_keys_id_mapper map_of_id_mapper
        remdups_query_by_value)
  also have "\<dots> = (case query_by_value snap k of [q] \<Rightarrow> Some q | _ \<Rightarrow> None)"
    by (simp split: list.splits)
  finally show ?thesis .
next
  case False
  then show ?thesis
    by (simp add: map_of_tax_qid_map_of distinct_keys_id_mapper map_of_id_mapper
        query_by_value_empty)
qed

text \<open>
  Claim C6. For a fixed snapshot of the remote store, the bulk strategy (the index of
  \<open>id_mapper\<close>, filtered by cell 24 to the identifiers with one entity) and the
  per-record strategy (one query per key) give the same entity for every key that both
  resolve. More than that, they resolve the same keys: the index has the entry \<open>q\<close> for
  \<open>k\<close> exactly when the lookup of \<open>k\<close> finds \<open>q\<close>.
\<close>

theorem bulk_and_per_record_agree:
  "(map_of (tax_qid_map_of (id_mapper snap)) k = Some q
      \<and> resolve_per_record snap k = Found q' \<longrightarrow> q = q') \<and>
   (map_of (tax_qid_map_of (id_mapper snap)) k = Some q
      \<longleftrightarrow> resolve_per_record snap k = Found q)"
  by (auto simp: bulk_lookup resolve_per_record_def split: list.splits)

theorem bulk_and_per_record_agree_witness:
  "map_of (tax_qid_map_of (id_mapper shared_taxid)) ''1366'' = Some ''Q383453'' \<and>
   resolve_per_record shared_taxid ''1366'' = Found ''Q383453'' \<and>
   map_of (tax_qid_map_of (id_mapper shared_taxid)) ''9'' = None \<and>
   resolve_per_record shared_taxid ''9'' = Ambiguous"
proof -
  have a: "resolve_per_record shared_taxid ''1366'' = Found ''Q383453''"
    by (simp add: resolve_per_record_def query_by_value_def shared_taxid_def)
  have b: "resolve_per_record shared_taxid ''9'' = Ambiguous"
    by (simp add: resolve_per_record_def query_by_value_def shared_taxid_def)
  from bulk_and_per_record_agree [of shared_taxid "''1366''" "''Q383453''" "''Q383453''"] a
  have c: "map_of (tax_qid_map_of (id_mapper shared_taxid)) ''1366'' = Some ''Q383453''"
    by simp
  have d: "map_of (tax_qid_map_of (id_mapper shared_taxid)) ''9'' = None"
  proof (cases "map_of (tax_qid_map_of (id_mapper shared_taxid)) ''9''")
    case None
    then show ?thesis .
  next
    case (Some q)
    with bulk_and_per_record_agree [of shared_taxid "''9''" q q] b show ?thesis by simp
  qed
  from a b c d show ?thesis by simp
qed

section \<open>Freshness of references (cell 29)\<close>

text \<open>
  Claim C3. Cell 29 turns the reference check on (\<^verbatim>\<open>fast_run_use_refs=True\<close>) with the
  handler \<^verbatim>\<open>update_retrieved_if_new\<close> at 180 days. For an entity whose existing value
  is the accession of the record, with one reference group retrieved at day 0, the plan
  at day 181 is UpdateReference, at day 179 NoOp, and at the boundary, day 180,
  UpdateReference: the reference is stale from day 180 on.
\<close>

theorem staleness_boundary:
  "plan (v3_args now g qid) (genbank_statement now g) [(g, 0, [])] d
     = (if 180 \<le> d then UpdateReference else NoOp) \<and>
   plan (v3_args now g qid) (genbank_statement now g) [(g, 0, [])] 181 = UpdateReference \<and>
   plan (v3_args now g qid) (genbank_statement now g) [(g, 0, [])] 179 = NoOp \<and>
   plan (v3_args now g qid) (genbank_statement now g) [(g, 0, [])] 180 = UpdateReference"
  by (simp add: v3_args_def v2_args_def no_args_def genbank_statement_def Let_def
      update_retrieved_if_new_def is_stale_def)

lemma v2_ignores_references:
  "plan (v2_args now g qid) (genbank_statement now g) [(g, 0, [])] d = NoOp"
  by (simp add: v2_args_def no_args_def genbank_statement_def Let_def)

section \<open>The loop over the records\<close>

lemma construct_and_write_log:
  "\<exists>ls. log (final_state (construct_and_write lib args g st)) = log st @ ls \<and>
        length ls = (if has_returned (construct_and_write lib args g st) then 1 else 0)"
proof (cases rule: engine_cases [of lib args "world st"])
  case (raised e w)
  then show ?thesis
    by (simp add: construct_and_write_raised)
next
  case (returned i w)
  then show ?thesis
    by (simp add: construct_and_write_returned)
qed

lemma run_one_fast_log:
  "\<exists>ls. log (final_state (run_one_fast mk lib tqm taxid g st)) = log st @ ls \<and>
        length ls = (if has_returned (run_one_fast mk lib tqm taxid g st) then 1 else 0)"
proof (cases "map_of tqm (str taxid)")
  case None
  then show ?thesis
    by (simp add: run_one_fast_miss)
next
  case (Some q)
  then show ?thesis
    by (simp add: run_one_fast_hit construct_and_write_log)
qed

lemma run_one_v1_not_found:
  "WDItemEngine lib (search_args taxid) (world st) = (Inr i, w) \<Longrightarrow>
   item_wd_item_id lib i = '''' \<Longrightarrow>
   run_one_v1 lib taxid g st
     = Returned (st\<lparr>calls := calls st @ [EngineCall (search_args taxid)],
                    log := log st @
                      [\<lparr>level = ''WARNING'',
                        body = \<lparr>external_id = g, external_id_prop = ''P4333'', wdid = '''',
                                msg_text = ''No organism found with taxid '' @ str taxid,
                                msg_type = None\<rparr>\<rparr>],
                    world := w\<rparr>)"
  by (simp add: run_one_v1_def Let_def log_append_def format_msg_def PROPS_simps)

lemma run_one_v1_found:
  "WDItemEngine lib (search_args taxid) (world st) = (Inr i, w) \<Longrightarrow>
   item_wd_item_id lib i \<noteq> '''' \<Longrightarrow>
   run_one_v1 lib taxid g st
     = construct_and_write lib
         (no_args\<lparr>data := [genbank_statement (gmtime lib w) g],
                  wd_item_id := item_wd_item_id lib i\<rparr>)
         g (st\<lparr>calls := calls st @ [EngineCall (search_args taxid)], world := w\<rparr>)"
  by (simp add: run_one_v1_def Let_def)

lemma run_one_v1_other:
  "WDItemEngine lib (search_args taxid) (world st) = (Inl (OtherException c m), w) \<Longrightarrow>
   run_one_v1 lib taxid g st
     = Raised (OtherException c m)
         (st\<lparr>calls := calls st @ [EngineCall (search_args taxid)], world := w\<rparr>)"
  by (simp add: run_one_v1_def Let_def)

lemma run_one_v1_log:
  "\<exists>ls. log (final_state (run_one_v1 lib taxid g st)) = log st @ ls \<and>
        length ls = (if has_returned (run_one_v1 lib taxid g st) then 1 else 0)"
proof (cases rule: engine_cases [of lib "search_args taxid" "world st"])
  case (raised e w)
  then show ?thesis
    by (cases e) (simp_all add: run_one_v1_ambiguous run_one_v1_other)
next
  case (returned i w)
  show ?thesis
  proof (cases "item_wd_item_id lib i = ''''")
    case True
    with returned show ?thesis
      by (simp add: run_one_v1_not_found)
  next
    case False
    let ?st = "st\<lparr>calls := calls st @ [EngineCall (search_args taxid)], world := w\<rparr>"
    let ?args = "no_args\<lparr>data := [genbank_statement (gmtime lib w) g],
                  wd_item_id := item_wd_item_id lib i\<rparr>"
    from construct_and_write_log [of lib ?args g ?st] returned False
    show ?thesis
      by (simp add: run_one_v1_found)
  qed
qed

lemma batch_log:
  assumes step: "\<And>t g s. \<exists>ls. log (final_state (run t g s)) = log s @ ls \<and>
        length ls = (if has_returned (run t g s) then 1 else 0)"
  shows "\<exists>ls. log (final_state (batch run items st)) = log st @ ls \<and>
        (has_returned (batch run items st) \<longrightarrow> length ls = length items)"
proof (induction items arbitrary: st)
  case Nil
  then show ?case by simp
next
  case (Cons p items)
  obtain t g where p: "p = (t, g)" by (cases p)
  from step [of t g st] obtain l1 where
    l1: "log (final_state (run t g st)) = log st @ l1"
      "length l1 = (if has_returned (run t g st) then 1 else 0)"
    by blast
  show ?case
  proof (cases "run t g st")
    case (Returned st')
    from Cons.IH [of st'] obtain l2 where
      l2: "log (final_state (batch run items st')) = log st' @ l2"
        "has_returned (batch run items st') \<longrightarrow> length l2 = length items"
      by blast
    from l1 Returned have "log st' = log st @ l1" "length l1 = 1"
      by simp_all
    with l2 Returned show ?thesis
      by (simp add: p)
  next
    case (Raised e st')
    with l1 show ?thesis
      by (simp add: p)
  qed
qed

lemma batch_returns:
  assumes "\<And>t g s. has_returned (run t g s)"
  shows "has_returned (batch run items st)"
proof (induction items arbitrary: st)
  case Nil
  then show ?case by simp
next
  case (Cons p items)
  obtain t g where p: "p = (t, g)" by (cases p)
  from assms [of t g st] obtain st' where "run t g st = Returned st'"
    by (cases "run t g st") simp_all
  with Cons.IH [of st'] show ?case
    by (simp add: p)
qed

lemma construct_and_write_returns:
  assumes "raises_only_on_ambiguous_lookup lib" and "\<not> search_only args"
  shows "has_returned (construct_and_write lib args g st)"
proof (cases rule: engine_cases [of lib args "world st"])
  case (raised e w)
  with assms show ?thesis
    unfolding raises_only_on_ambiguous_lookup_def by blast
next
  case (returned i w)
  then show ?thesis
    by (simp add: construct_and_write_returned)
qed

lemma not_search_only [simp]:
  "\<not> search_only (v2_args now g q)" "\<not> search_only (v3_args now g q)"
  "\<not> search_only (no_args\<lparr>data := d, wd_item_id := q\<rparr>)"
  by (simp_all add: v2_args_def v3_args_def no_args_def)

lemma run_one_fast_returns:
  assumes "raises_only_on_ambiguous_lookup lib" and "\<And>now g q. \<not> search_only (mk now g q)"
  shows "has_returned (run_one_fast mk lib tqm taxid g st)"
proof (cases "map_of tqm (str taxid)")
  case None
  then show ?thesis
    by (simp add: run_one_fast_miss)
next
  case (Some q)
  with assms show ?thesis
    by (simp add: run_one_fast_hit construct_and_write_returns)
qed

lemma run_one_v1_returns:
  assumes "raises_only_on_ambiguous_lookup lib"
  shows "has_returned (run_one_v1 lib taxid g st)"
proof (cases rule: engine_cases [of lib "search_args taxid" "world st"])
  case (raised e w)
  with assms obtain m where "e = ManualInterventionReqException m"
    unfolding raises_only_on_ambiguous_lookup_def by blast
  with raised show ?thesis
    by (simp add: run_one_v1_ambiguous)
next
  case (returned i w)
  show ?thesis
  proof (cases "item_wd_item_id lib i = ''''")
    case True
    with returned show ?thesis
      by (simp add: run_one_v1_not_found)
  next
    case False
    with returned assms show ?thesis
      by (simp add: run_one_v1_found construct_and_write_returns)
  qed
qed

section \<open>Failures of one record and the batch\<close>

lemma batch_completes:
  assumes step: "\<And>t g s. \<exists>ls. log (final_state (run t g s)) = log s @ ls \<and>
        length ls = (if has_returned (run t g s) then 1 else 0)"
      and ret: "\<And>t g s. has_returned (run t g s)"
  shows "\<exists>st'. batch run items st = Returned st' \<and>
           length (log st') = length (log st) + length items"
proof -
  from batch_returns [of run items st] ret obtain st' where
    r: "batch run items st = Returned st'"
    by (cases "batch run items st") simp_all
  from batch_log [of run items st] step obtain ls where
    "log (final_state (batch run items st)) = log st @ ls"
    "has_returned (batch run items st) \<longrightarrow> length ls = length items"
    by blast
  with r have "length (log st') = length (log st) + length items"
    by simp
  with r show ?thesis by blast
qed

lemma batch_raised:
  "run t g st = Raised e st' \<Longrightarrow> batch run ((t, g) # items) st = Raised e st'"
  by simp

lemma conflict_engine_search:
  "search_only args \<Longrightarrow>
   WDItemEngine (conflict_wdi snap t) args w = WDItemEngine (snapshot_wdi snap t) args w"
  by (simp add: conflict_wdi_def)

lemma conflict_engine_write:
  "\<not> search_only args \<Longrightarrow>
   WDItemEngine (conflict_wdi snap t) args w
     = (Inl (ManualInterventionReqException ''value already on another item''), w)"
  by (simp add: conflict_wdi_def)

text \<open>
  Claim C7, as amended. In a batch in which the only exception that the constructor
  raises is \<^verbatim>\<open>ManualInterventionReqException\<close> on the lookup of cell 20, which cell 20
  catches and logs, no record ends the batch: in each version the loop proceeds through
  every record and the log has one more line for each, records that are not found or
  ambiguous included; failures of the write stay inside \<^verbatim>\<open>try_write\<close>, which returns.
  Every other exception of a constructor is not caught at the record: an exception of
  any class raised by the constructor of cell 25, by that of cell 29 or by the second
  constructor call of cell 20, and an exception of another class raised by the lookup of
  cell 20, leaves \<^verbatim>\<open>run_one\<close> and ends the loop at that record, whatever records
  follow.
\<close>

theorem batch_ends_only_on_constructor_exception:
  "(raises_only_on_ambiguous_lookup lib \<longrightarrow>
      (\<exists>st'. batch (run_one_v1 lib) items st = Returned st' \<and>
             length (log st') = length (log st) + length items) \<and>
      (\<exists>st'. batch (run_one_v2 lib tax_qid_map) items st = Returned st' \<and>
             length (log st') = length (log st) + length items) \<and>
      (\<exists>st'. batch (run_one_v3 lib tax_qid_map) items st = Returned st' \<and>
             length (log st') = length (log st) + length items)) \<and>
   (\<forall>q e w. map_of tax_qid_map (str taxid) = Some q \<and>
        WDItemEngine lib (v2_args (gmtime lib (world st)) g q) (world st) = (Inl e, w) \<longrightarrow>
      batch (run_one_v2 lib tax_qid_map) ((taxid, g) # items) st
        = Raised e (st\<lparr>calls := calls st @ [EngineCall (v2_args (gmtime lib (world st)) g q)],
                       world := w\<rparr>)) \<and>
   (\<forall>q e w. map_of tax_qid_map (str taxid) = Some q \<and>
        WDItemEngine lib (v3_args (gmtime lib (world st)) g q) (world st) = (Inl e, w) \<longrightarrow>
      batch (run_one_v3 lib tax_qid_map) ((taxid, g) # items) st
        = Raised e (st\<lparr>calls := calls st @ [EngineCall (v3_args (gmtime lib (world st)) g q)],
                       world := w\<rparr>)) \<and>
   (\<forall>c m w. WDItemEngine lib (search_args taxid) (world st) = (Inl (OtherException c m), w) \<longrightarrow>
      batch (run_one_v1 lib) ((taxid, g) # items) st
        = Raised (OtherException c m)
            (st\<lparr>calls := calls st @ [EngineCall (search_args taxid)], world := w\<rparr>)) \<and>
   (\<forall>i w e w'. WDItemEngine lib (search_args taxid) (world st) = (Inr i, w) \<and>
        item_wd_item_id lib i \<noteq> '''' \<and>
        WDItemEngine lib
          (no_args\<lparr>data := [genbank_statement (gmtime lib w) g],
                   wd_item_id := item_wd_item_id lib i\<rparr>) w = (Inl e, w') \<longrightarrow>
      batch (run_one_v1 lib) ((taxid, g) # items) st
        = Raised e
            (st\<lparr>calls := calls st @
                    [EngineCall (search_args taxid),
                     EngineCall (no_args\<lparr>data := [genbank_statement (gmtime lib w) g],
                                         wd_item_id := item_wd_item_id lib i\<rparr>)],
                world := w'\<rparr>))"
proof (intro conjI impI allI)
  assume lib: "raises_only_on_ambiguous_lookup lib"
  show "\<exists>st'. batch (run_one_v1 lib) items st = Returned st' \<and>
             length (log st') = length (log st) + length items"
    by (rule batch_completes) (rule run_one_v1_log, rule run_one_v1_returns [OF lib])
  show "\<exists>st'. batch (run_one_v2 lib tax_qid_map) items st = Returned st' \<and>
             length (log st') = length (log st) + length items"
    unfolding run_one_v2_def
    by (rule batch_completes)
       (rule run_one_fast_log, rule run_one_fast_returns [OF lib], simp)
  show "\<exists>st'. batch (run_one_v3 lib tax_qid_map) items st = Returned st' \<and>
             length (log st') = length (log st) + length items"
    unfolding run_one_v3_def
    by (rule batch_completes)
       (rule run_one_fast_log, rule run_one_fast_returns [OF lib], simp)
next
  fix q e w
  assume "map_of tax_qid_map (str taxid) = Some q \<and>
        WDItemEngine lib (v2_args (gmtime lib (world st)) g q) (world st) = (Inl e, w)"
  then show "batch (run_one_v2 lib tax_qid_map) ((taxid, g) # items) st
        = Raised e (st\<lparr>calls := calls st @ [EngineCall (v2_args (gmtime lib (world st)) g q)],
                       world := w\<rparr>)"
    by (simp add: run_one_v2_def run_one_fast_hit construct_and_write_raised)
next
  fix q e w
  assume "map_of tax_qid_map (str taxid) = Some q \<and>
        WDItemEngine lib (v3_args (gmtime lib (world st)) g q) (world st) = (Inl e, w)"
  then show "batch (run_one_v3 lib tax_qid_map) ((taxid, g) # items) st
        = Raised e (st\<lparr>calls := calls st @ [EngineCall (v3_args (gmtime lib (world st)) g q)],
                       world := w\<rparr>)"
    by (simp add: run_one_v3_def run_one_fast_hit construct_and_write_raised)
next
  fix c m w
  assume "WDItemEngine lib (search_args taxid) (world st) = (Inl (OtherException c m), w)"
  then show "batch (run_one_v1 lib) ((taxid, g) # items) st
        = Raised (OtherException c m)
            (st\<lparr>calls := calls st @ [EngineCall (search_args taxid)], world := w\<rparr>)"
    by (simp add: run_one_v1_other)
next
  fix i w e w'
  let ?args = "no_args\<lparr>data := [genbank_statement (gmtime lib w) g],
                   wd_item_id := item_wd_item_id lib i\<rparr>"
  let ?st1 = "st\<lparr>calls := calls st @ [EngineCall (search_args taxid)], world := w\<rparr>"
  assume a: "WDItemEngine lib (search_args taxid) (world st) = (Inr i, w) \<and>
        item_wd_item_id lib i \<noteq> '''' \<and> WDItemEngine lib ?args w = (Inl e, w')"
  then have "WDItemEngine lib ?args (world ?st1) = (Inl e, w')"
    by simp
  then have "construct_and_write lib ?args g ?st1
      = Raised e (?st1\<lparr>calls := calls ?st1 @ [EngineCall ?args], world := w'\<rparr>)"
    by (rule construct_and_write_raised)
  with a show "batch (run_one_v1 lib) ((taxid, g) # items) st
        = Raised e
            (st\<lparr>calls := calls st @ [EngineCall (search_args taxid), EngineCall ?args],
                world := w'\<rparr>)"
    by (simp add: run_one_v1_found)
qed

lemma snapshot_wdi_raises_only: "raises_only_on_ambiguous_lookup (snapshot_wdi snap t)"
  by (auto simp: raises_only_on_ambiguous_lookup_def snapshot_wdi_def
      split: if_splits list.splits statement.splits resolution.splits)

lemma unreachable_engine:
  "WDItemEngine (unreachable_wdi t) args w
     = (Inl (OtherException ''ConnectionError'' ''timed out''), w)"
  by (simp add: unreachable_wdi_def)

lemma str_1366: "str 1366 = ''1366''"
  by (simp add: str_def str_nat.simps digit_def)

theorem batch_ends_only_on_constructor_exception_witness:
  "raises_only_on_ambiguous_lookup (snapshot_wdi shared_taxid day_2017_10_13) \<and>
   (\<exists>st'. batch (run_one_v1 (snapshot_wdi shared_taxid day_2017_10_13)) two_records empty_state
            = Returned st' \<and> length (log st') = 2) \<and>
   (\<exists>st'. batch (run_one_v2 (snapshot_wdi shared_taxid day_2017_10_13) one_entry_index)
            two_records empty_state = Returned st' \<and> length (log st') = 2) \<and>
   (\<exists>st'. batch (run_one_v3 (snapshot_wdi shared_taxid day_2017_10_13) one_entry_index)
            two_records empty_state = Returned st' \<and> length (log st') = 2) \<and>
   map_of one_entry_index (str 9) = Some ''Q383453'' \<and>
   WDItemEngine (unreachable_wdi day_2017_10_13)
       (v2_args day_2017_10_13 ''GCA_900128725.1'' ''Q383453'') ()
     = (Inl (OtherException ''ConnectionError'' ''timed out''), ()) \<and>
   batch (run_one_v2 (unreachable_wdi day_2017_10_13) one_entry_index) two_records empty_state
     = Raised (OtherException ''ConnectionError'' ''timed out'')
         \<lparr>log = [],
          calls = [EngineCall (v2_args day_2017_10_13 ''GCA_900128725.1'' ''Q383453'')],
          world = ()\<rparr> \<and>
   WDItemEngine (unreachable_wdi day_2017_10_13)
       (v3_args day_2017_10_13 ''GCA_900128725.1'' ''Q383453'') ()
     = (Inl (OtherException ''ConnectionError'' ''timed out''), ()) \<and>
   batch (run_one_v3 (unreachable_wdi day_2017_10_13) one_entry_index) two_records empty_state
     = Raised (OtherException ''ConnectionError'' ''timed out'')
         \<lparr>log = [],
          calls = [EngineCall (v3_args day_2017_10_13 ''GCA_900128725.1'' ''Q383453'')],
          world = ()\<rparr> \<and>
   WDItemEngine (unreachable_wdi day_2017_10_13) (search_args 9) ()
     = (Inl (OtherException ''ConnectionError'' ''timed out''), ()) \<and>
   batch (run_one_v1 (unreachable_wdi day_2017_10_13)) two_records empty_state
     = Raised (OtherException ''ConnectionError'' ''timed out'')
         \<lparr>log = [], calls = [EngineCall (search_args 9)], world = ()\<rparr> \<and>
   WDItemEngine (conflict_wdi shared_taxid day_2017_10_13) (search_args 1366) ()
     = (Inr ''Q383453'', ()) \<and>
   WDItemEngine (conflict_wdi shared_taxid day_2017_10_13)
       (no_args\<lparr>data := [genbank_statement day_2017_10_13 ''GCA_002310475.1''],
                wd_item_id := ''Q383453''\<rparr>) ()
     = (Inl (ManualInterventionReqException ''value already on another item''), ()) \<and>
   batch (run_one_v1 (conflict_wdi shared_taxid day_2017_10_13))
       ((1366, ''GCA_002310475.1'') # two_records) empty_state
     = Raised (ManualInterventionReqException ''value already on another item'')
         \<lparr>log = [],
          calls = [EngineCall (search_args 1366),
                   EngineCall (no_args\<lparr>data := [genbank_statement day_2017_10_13
                                                   ''GCA_002310475.1''],
                                       wd_item_id := ''Q383453''\<rparr>)],
          world = ()\<rparr>"
proof -
  let ?ok = "snapshot_wdi shared_taxid day_2017_10_13"
  let ?bad = "unreachable_wdi day_2017_10_13"
  let ?cf = "conflict_wdi shared_taxid day_2017_10_13"
  let ?args = "no_args\<lparr>data := [genbank_statement day_2017_10_13 ''GCA_002310475.1''],
                wd_item_id := ''Q383453''\<rparr>"
  have p: "raises_only_on_ambiguous_lookup ?ok"
    by (rule snapshot_wdi_raises_only)
  have h: "map_of one_entry_index (str 9) = Some ''Q383453''"
    by (simp add: one_entry_index_def str_9)
  have e: "WDItemEngine ?bad (v2_args day_2017_10_13 ''GCA_900128725.1'' ''Q383453'') ()
     = (Inl (OtherException ''ConnectionError'' ''timed out''), ())"
    by (rule unreachable_engine)
  have e3: "WDItemEngine ?bad (v3_args day_2017_10_13 ''GCA_900128725.1'' ''Q383453'') ()
     = (Inl (OtherException ''ConnectionError'' ''timed out''), ())"
    by (rule unreachable_engine)
  have e1: "WDItemEngine ?bad (search_args 9) ()
     = (Inl (OtherException ''ConnectionError'' ''timed out''), ())"
    by (rule unreachable_engine)
  have tm: "gmtime ?bad w = day_2017_10_13" "gmtime ?cf w = day_2017_10_13" for w
    by (simp_all add: unreachable_wdi_def conflict_wdi_def snapshot_wdi_def)
  have idc: "item_wd_item_id ?cf q = q" for q
    by (simp add: conflict_wdi_def snapshot_wdi_def)
  have c1: "WDItemEngine ?cf (search_args 1366) () = (Inr ''Q383453'', ())"
    by (simp add: conflict_wdi_def snapshot_wdi_def search_args_def no_args_def str_1366
        resolve_per_record_def query_by_value_def shared_taxid_def PROPS_simps)
  have c2: "WDItemEngine ?cf ?args ()
     = (Inl (ManualInterventionReqException ''value already on another item''), ())"
    by (simp add: conflict_engine_write)
  have tr: "(9, ''GCA_900128725.1'') # [(679936, ''GCA_000237975.1'')] = two_records"
    by (simp add: two_records_def)
  have len: "length (log empty_state) + length two_records = 2"
    by (simp add: two_records_def empty_state_def)
  have w0: "world empty_state = ()"
    by simp
  note ok = batch_ends_only_on_constructor_exception
    [of ?ok two_records empty_state one_entry_index 9 "''x''"]
  note bad = batch_ends_only_on_constructor_exception
    [of ?bad "[(679936, ''GCA_000237975.1'')]" empty_state one_entry_index 9 "''GCA_900128725.1''"]
  note cf = batch_ends_only_on_constructor_exception
    [of ?cf two_records empty_state one_entry_index 1366 "''GCA_002310475.1''"]
  from ok p have
    "\<exists>st'. batch (run_one_v1 ?ok) two_records empty_state = Returned st' \<and>
       length (log st') = length (log empty_state) + length two_records"
    by blast
  then have a1:
    "\<exists>st'. batch (run_one_v1 ?ok) two_records empty_state = Returned st' \<and> length (log st') = 2"
    by (simp only: len)
  from ok p have
    "\<exists>st'. batch (run_one_v2 ?ok one_entry_index) two_records empty_state = Returned st' \<and>
       length (log st') = length (log empty_state) + length two_records"
    by blast
  then have a2:
    "\<exists>st'. batch (run_one_v2 ?ok one_entry_index) two_records empty_state = Returned st' \<and>
       length (log st') = 2"
    by (simp only: len)
  from ok p have
    "\<exists>st'. batch (run_one_v3 ?ok one_entry_index) two_records empty_state = Returned st' \<and>
       length (log st') = length (log empty_state) + length two_records"
    by blast
  then have a3:
    "\<exists>st'. batch (run_one_v3 ?ok one_entry_index) two_records empty_state = Returned st' \<and>
       length (log st') = 2"
    by (simp only: len)
  from e have e': "WDItemEngine ?bad
       (v2_args (gmtime ?bad (world empty_state)) ''GCA_900128725.1'' ''Q383453'')
       (world empty_state)
     = (Inl (OtherException ''ConnectionError'' ''timed out''), ())"
    by (simp only: tm w0)
  from e3 have e3': "WDItemEngine ?bad
       (v3_args (gmtime ?bad (world empty_state)) ''GCA_900128725.1'' ''Q383453'')
       (world empty_state)
     = (Inl (OtherException ''ConnectionError'' ''timed out''), ())"
    by (simp only: tm w0)
  from e1 have e1': "WDItemEngine ?bad (search_args 9) (world empty_state)
     = (Inl (OtherException ''ConnectionError'' ''timed out''), ())"
    by (simp only: w0)
  from bad h e' have
    "batch (run_one_v2 ?bad one_entry_index)
        ((9, ''GCA_900128725.1'') # [(679936, ''GCA_000237975.1'')]) empty_state
     = Raised (OtherException ''ConnectionError'' ''timed out'')
         (empty_state\<lparr>calls := calls empty_state @
             [EngineCall (v2_args (gmtime ?bad (world empty_state)) ''GCA_900128725.1''
                ''Q383453'')],
            world := ()\<rparr>)"
    by blast
  then have b1:
    "batch (run_one_v2 ?bad one_entry_index) two_records empty_state
     = Raised (OtherException ''ConnectionError'' ''timed out'')
         \<lparr>log = [],
          calls = [EngineCall (v2_args day_2017_10_13 ''GCA_900128725.1'' ''Q383453'')],
          world = ()\<rparr>"
    unfolding tr by (simp add: empty_state_def tm)
  from bad h e3' have
    "batch (run_one_v3 ?bad one_entry_index)
        ((9, ''GCA_900128725.1'') # [(679936, ''GCA_000237975.1'')]) empty_state
     = Raised (OtherException ''ConnectionError'' ''timed out'')
         (empty_state\<lparr>calls := calls empty_state @
             [EngineCall (v3_args (gmtime ?bad (world empty_state)) ''GCA_900128725.1''
                ''Q383453'')],
            world := ()\<rparr>)"
    by blast
  then have b3:
    "batch (run_one_v3 ?bad one_entry_index) two_records empty_state
     = Raised (OtherException ''ConnectionError'' ''timed out'')
         \<lparr>log = [],
          calls = [EngineCall (v3_args day_2017_10_13 ''GCA_900128725.1'' ''Q383453'')],
          world = ()\<rparr>"
    unfolding tr by (simp add: empty_state_def tm)
  from bad e1' have
    "batch (run_one_v1 ?bad)
        ((9, ''GCA_900128725.1'') # [(679936, ''GCA_000237975.1'')]) empty_state
     = Raised (OtherException ''ConnectionError'' ''timed out'')
         (empty_state\<lparr>calls := calls empty_state @ [EngineCall (search_args 9)],
            world := ()\<rparr>)"
    by blast
  then have b2:
    "batch (run_one_v1 ?bad) two_records empty_state
     = Raised (OtherException ''ConnectionError'' ''timed out'')
         \<lparr>log = [], calls = [EngineCall (search_args 9)], world = ()\<rparr>"
    unfolding tr by (simp add: empty_state_def)
  have c1': "WDItemEngine ?cf (search_args 1366) (world empty_state) = (Inr ''Q383453'', ())"
    using c1 by (simp only: w0)
  have ne: "item_wd_item_id ?cf ''Q383453'' \<noteq> ''''"
    by (simp add: idc)
  have c2': "WDItemEngine ?cf
       (no_args\<lparr>data := [genbank_statement (gmtime ?cf ()) ''GCA_002310475.1''],
                wd_item_id := item_wd_item_id ?cf ''Q383453''\<rparr>) ()
     = (Inl (ManualInterventionReqException ''value already on another item''), ())"
    using c2 by (simp only: tm idc)
  from cf c1' ne c2' have
    "batch (run_one_v1 ?cf) ((1366, ''GCA_002310475.1'') # two_records) empty_state
     = Raised (ManualInterventionReqException ''value already on another item'')
         (empty_state\<lparr>calls := calls empty_state @
             [EngineCall (search_args 1366),
              EngineCall (no_args\<lparr>data := [genbank_statement (gmtime ?cf ())
                                              ''GCA_002310475.1''],
                                  wd_item_id := item_wd_item_id ?cf ''Q383453''\<rparr>)],
            world := ()\<rparr>)"
    by blast
  then have c3:
    "batch (run_one_v1 ?cf) ((1366, ''GCA_002310475.1'') # two_records) empty_state
     = Raised (ManualInterventionReqException ''value already on another item'')
         \<lparr>log = [], calls = [EngineCall (search_args 1366), EngineCall ?args], world = ()\<rparr>"
    by (simp only: tm idc) (simp add: empty_state_def)
  from p a1 a2 a3 h e b1 e3 b3 e1 b2 c1 c2 c3 show ?thesis by blast
qed

text \<open>
  As stated, C7 lets no failure of one record end the batch. With a library whose
  constructor fails on a network error, the first of two records ends the loop: nothing
  is logged and the second record is never reached.
\<close>

theorem uncaught_exception_ends_batch_counterexample:
  "\<not> has_returned
       (batch (run_one_v2 (unreachable_wdi day_2017_10_13) one_entry_index) two_records
          empty_state) \<and>
   log (final_state
       (batch (run_one_v2 (unreachable_wdi day_2017_10_13) one_entry_index) two_records
          empty_state)) = [] \<and>
   length (calls (final_state
       (batch (run_one_v2 (unreachable_wdi day_2017_10_13) one_entry_index) two_records
          empty_state))) = 1"
  by (simp add: two_records_def one_entry_index_def str_9 run_one_v2_def run_one_fast_hit
      construct_and_write_raised [OF unreachable_engine] empty_state_def)

section \<open>The audit log of a batch\<close>

lemma new_lines_append: "log (final_state r) = log st @ ls \<Longrightarrow> new_lines st r = ls"
  by (simp add: new_lines_def)



lemma write_args_of_simp:
  "write_args_of g = \<lparr>record_id = g, record_prop = ''P4333'',
     edit_summary = ''update GenBank Assembly accession''\<rparr>"
  by (simp add: write_args_of_def PROPS_simps)


lemma stream_after_batch_header:
  "stream_after_batch now1 now2 run items w
     = HeaderEntry [(''name'', ''genbank assembly''), (''timestamp'', now1), (''run_id'', now2)]
         # map LineEntry (log (final_state (batch run items \<lparr>log = [], calls = [], world = w\<rparr>)))"
  by (simp add: stream_after_batch_def log_stream_def setup_logging_def logging_header_def)


lemma snapshot_wdi_constructs:
  "\<not> search_only args \<Longrightarrow>
   WDItemEngine (snapshot_wdi snap t) args w = (Inr (wd_item_id args), w)"
  by (simp add: snapshot_wdi_def)


lemma snapshot_wdi_try_write:
  "fst (try_write (snapshot_wdi snap t) q
          \<lparr>record_id = g, record_prop = p, edit_summary = s\<rparr> w)
     = \<lparr>level = ''INFO'',
        body = \<lparr>external_id = g, external_id_prop = p, wdid = q, msg_text = ''SKIP'',
                msg_type = None\<rparr>\<rparr>"
  by (simp add: snapshot_wdi_def format_msg_def)

lemma snapshot_wdi_fields:
  "gmtime (snapshot_wdi snap t) w = t" "item_wd_item_id (snapshot_wdi snap t) q = q"
  by (simp_all add: snapshot_wdi_def)



text \<open>
  The stream of a run of two records, one written to and one without an entity: the header
  and one line for each, as in the log of cell 27.
\<close>

lemma stream_after_batch_example:
  "stream_after_batch ''2017-10-13 13:50:10.938710'' ''2017-10-13 13:50:10.938772''
     (run_one_v2 (snapshot_wdi shared_taxid day_2017_10_13) one_entry_index) two_records ()
   = [HeaderEntry [(''name'', ''genbank assembly''),
                   (''timestamp'', ''2017-10-13 13:50:10.938710''),
                   (''run_id'', ''2017-10-13 13:50:10.938772'')],
      LineEntry \<lparr>level = ''INFO'',
         body = \<lparr>external_id = ''GCA_900128725.1'', external_id_prop = ''P4333'',
                 wdid = ''Q383453'', msg_text = ''SKIP'', msg_type = None\<rparr>\<rparr>,
      LineEntry \<lparr>level = ''WARNING'',
         body = \<lparr>external_id = ''GCA_000237975.1'', external_id_prop = ''P4333'', wdid = '''',
                 msg_text = ''organism with taxid 679936 not found or skipped'',
                 msg_type = None\<rparr>\<rparr>]"
proof -
  let ?lib = "snapshot_wdi shared_taxid day_2017_10_13"
  have h1: "map_of one_entry_index (str 679936) = None"
    by (simp add: one_entry_index_def str_679936)
  have h2: "map_of one_entry_index (str 9) = Some ''Q383453''"
    by (simp add: one_entry_index_def str_9)
  show ?thesis
    by (simp add: stream_after_batch_header two_records_def run_one_v2_def
        run_one_fast_miss [OF h1] run_one_fast_hit [OF h2] snapshot_wdi_fields
        construct_and_write_returned [OF snapshot_wdi_constructs] write_args_of_simp
        snapshot_wdi_try_write str_679936)
qed


end
